theory Spec2Isabelle
  imports Complex_Main "HOL-Library.Monad_Syntax"
begin

section \<open>JavaScript values\<close>

text \<open>
  The service reads request bodies and provider replies as untyped JSON. A JavaScript
  number is \<open>NaN\<close>, an infinity or a finite value (every finite double is a rational).
\<close>

datatype jsnum = NaN | PosInf | NegInf | Fin rat

datatype jsval =
    JUndefined
  | JNull
  | JBool bool
  | JNum jsnum
  | JStr string
  | JArr "jsval list"
  | JObj "(string \<times> jsval) list"

section \<open>Strings and the regular expressions of checkout.ts\<close>

text \<open>
  \<open>String.prototype.substring(start, end)\<close>: both indices are clamped to
  \<open>0 .. length\<close> (a negative index counts as 0) and swapped when out of order; a
  missing \<open>end\<close> is the length.
\<close>

definition clampIndex :: "nat \<Rightarrow> int \<Rightarrow> nat" where
  "clampIndex len i = (if i < 0 then 0 else if int len < i then len else nat i)"

definition substring :: "string \<Rightarrow> int \<Rightarrow> int option \<Rightarrow> string" where
  "substring s start fin =
     (let len = length s;
          a = clampIndex len start;
          b = (case fin of None \<Rightarrow> len | Some e \<Rightarrow> clampIndex len e);
          lo = min a b;
          hi = max a b
      in take (hi - lo) (drop lo s))"

text \<open>\<open>String.prototype.includes(needle)\<close>: the needle occurs at some position.\<close>

fun js_includes :: "string \<Rightarrow> string \<Rightarrow> bool" where
  "js_includes [] needle = (needle = [])"
| "js_includes (c # cs) needle = (take (length needle) (c # cs) = needle \<or> js_includes cs needle)"

text \<open>
  Matching under the \<open>i\<close> flag: the patterns hold ASCII characters only, and the
  canonicalisation of a pattern character and of an input character agree exactly when
  their ASCII upper-case forms do.
\<close>

definition toUpperAscii :: "char \<Rightarrow> char" where
  "toUpperAscii c =
     (case map_of (zip ''abcdefghijklmnopqrstuvwxyz'' ''ABCDEFGHIJKLMNOPQRSTUVWXYZ'') c of
        Some u \<Rightarrow> u
      | None \<Rightarrow> c)"

text \<open>A literal of a pattern, matched at the start of the input; the rest is returned.\<close>

fun lit_ci :: "string \<Rightarrow> string \<Rightarrow> string option" where
  "lit_ci [] s = Some s"
| "lit_ci (p # ps) [] = None"
| "lit_ci (p # ps) (c # cs) =
     (if toUpperAscii p = toUpperAscii c then lit_ci ps cs else None)"

text \<open>The class \<open>[A-Z0-9]\<close> under the \<open>i\<close> flag.\<close>

definition alnum_ci :: "char \<Rightarrow> bool" where
  "alnum_ci c \<longleftrightarrow> toUpperAscii c \<in> set ''ABCDEFGHIJKLMNOPQRSTUVWXYZ0123456789''"

text \<open>The group \<open>([A-Z0-9]{10})\<close>: the ten characters and the rest.\<close>

definition asin10 :: "string \<Rightarrow> (string \<times> string) option" where
  "asin10 s = (if 10 \<le> length s \<and> list_all alnum_ci (take 10 s)
               then Some (take 10 s, drop 10 s) else None)"

text \<open>
  \<open>/\/(?:dp|gp\/product)\/([A-Z0-9]{10})/i\<close> anchored at the start of the input: the
  capture group. The second alternative is tried when the first one, followed by the rest
  of the pattern, fails.
\<close>

definition asin_pattern_at :: "string \<Rightarrow> string option" where
  "asin_pattern_at s =
     (case lit_ci ''/'' s of
        None \<Rightarrow> None
      | Some r1 \<Rightarrow>
          (let rest = (\<lambda>r2. case lit_ci ''/'' r2 of
                               None \<Rightarrow> None
                             | Some r3 \<Rightarrow> map_option fst (asin10 r3))
           in case Option.bind (lit_ci ''dp'' r1) rest of
                Some a \<Rightarrow> Some a
              | None \<Rightarrow> Option.bind (lit_ci ''gp/product'' r1) rest))"

text \<open>\<open>/amazon\.com\/dp\/([A-Z0-9]{10})/i\<close> anchored at the start of the input.\<close>

definition url_pattern_at :: "string \<Rightarrow> string option" where
  "url_pattern_at s =
     (case lit_ci ''amazon.com/dp/'' s of
        None \<Rightarrow> None
      | Some r \<Rightarrow> map_option fst (asin10 r))"

text \<open>\<open>String.prototype.match\<close> without the \<open>g\<close> flag: the leftmost match.\<close>

fun regex_first :: "(string \<Rightarrow> 'a option) \<Rightarrow> string \<Rightarrow> 'a option" where
  "regex_first m [] = m []"
| "regex_first m (c # cs) = (case m (c # cs) of Some a \<Rightarrow> Some a | None \<Rightarrow> regex_first m cs)"

text \<open>
  \<open>.*\<close> followed by the rest of a pattern: \<open>.\<close> matches every character but a
  line terminator.
\<close>

definition is_line_terminator :: "char \<Rightarrow> bool" where
  "is_line_terminator c \<longleftrightarrow> c = CHR 0x0A \<or> c = CHR 0x0D"

fun dot_star :: "(string \<Rightarrow> bool) \<Rightarrow> string \<Rightarrow> bool" where
  "dot_star m [] = m []"
| "dot_star m (c # cs) = (m (c # cs) \<or> (\<not> is_line_terminator c \<and> dot_star m cs))"

text \<open>\<open>/amazon\.com\/.*\/dp\/[A-Z0-9]{10}/i\<close> anchored at the start of the input.\<close>

definition validate_pattern_at :: "string \<Rightarrow> bool" where
  "validate_pattern_at s =
     (case lit_ci ''amazon.com/'' s of
        None \<Rightarrow> False
      | Some r \<Rightarrow>
          dot_star (\<lambda>t. case lit_ci ''/dp/'' t of
                          None \<Rightarrow> False
                        | Some u \<Rightarrow> asin10 u \<noteq> None) r)"

text \<open>\<open>RegExp.prototype.test\<close>: the pattern matches at some position.\<close>

fun regex_test :: "(string \<Rightarrow> bool) \<Rightarrow> string \<Rightarrow> bool" where
  "regex_test m [] = m []"
| "regex_test m (c # cs) = (m (c # cs) \<or> regex_test m cs)"

section \<open>Product Locator Resolver\<close>

text \<open>
  \<open>extractProductLocator\<close>: method 1 takes the ASIN after \<open>/dp/\<close> or
  \<open>/gp/product/\<close>, method 2 after \<open>amazon.com/dp/\<close>; of the three locator
  formats listed, the first is returned.
\<close>

definition extractProductLocator :: "string \<Rightarrow> string option" where
  "extractProductLocator amazonUrl =
     (case regex_first asin_pattern_at amazonUrl of
        Some extractedAsin \<Rightarrow> Some (''amazon:'' @ extractedAsin)
      | None \<Rightarrow>
          (case regex_first url_pattern_at amazonUrl of
             Some asinFromUrl \<Rightarrow> Some (''amazon:'' @ asinFromUrl)
           | None \<Rightarrow> None))"

definition validateAmazonUrl :: "string \<Rightarrow> bool" where
  "validateAmazonUrl url = regex_test validate_pattern_at url"

definition getBestBlockchainForWallet :: "string \<Rightarrow> string" where
  "getBestBlockchainForWallet walletAddress = ''base-sepolia''"

definition getProductLocatorVariations :: "string \<Rightarrow> string \<Rightarrow> string list" where
  "getProductLocatorVariations asin amazonUrl =
     [ ''amazon:'' @ asin,
       ''amazon:https://www.amazon.com/dp/'' @ asin,
       ''amazon:'' @ amazonUrl,
       asin,
       ''https://www.amazon.com/dp/'' @ asin ]"

section \<open>Property access, truthiness and thrown values\<close>

text \<open>
  The body of an HTTP reply, as axios hands it over: status, status text and the parsed
  JSON.
\<close>

record axios_response =
  resp_status :: nat
  resp_statusText :: string
  resp_data :: jsval

text \<open>
  The error objects the service meets: an axios error (with the reply when the provider
  answered, and its message), a zod validation error, a \<open>TypeError\<close> of the
  runtime, and \<open>new Error(message)\<close>.
\<close>

datatype js_error =
    AxiosError "axios_response option" string
  | ZodError
  | TypeError string
  | Error string

fun truthy :: "jsval \<Rightarrow> bool" where
  "truthy JUndefined = False"
| "truthy JNull = False"
| "truthy (JBool b) = b"
| "truthy (JNum n) = (n \<noteq> NaN \<and> n \<noteq> Fin 0)"
| "truthy (JStr s) = (s \<noteq> [])"
| "truthy (JArr xs) = True"
| "truthy (JObj kvs) = True"

text \<open>
  \<open>ToString\<close>, which a template literal applies to each value it interpolates,
  returns on every primitive value. On an object parsed from JSON it reads the property
  \<open>toString\<close>: an own property of that name is a JSON value, not a function, and
  \<open>valueOf\<close> (own or inherited) gives no primitive value, so the conversion throws
  a \<open>TypeError\<close>; without such a key the inherited method gives
  \<open>[object Object]\<close>. An array is joined: every element other than
  \<open>null\<close> and \<open>undefined\<close> is converted in turn. \<open>printable v\<close>:
  the conversion of \<open>v\<close> returns.
\<close>

fun printable :: "jsval \<Rightarrow> bool" where
  "printable (JObj kvs) = (map_of kvs ''toString'' = None)"
| "printable (JArr xs) = (\<forall>x \<in> set xs. printable x)"
| "printable v = True"

text \<open>
  The evaluation of a template literal (or of a string concatenation) that interpolates the
  given values: it builds the text, or throws at the first value that cannot be converted.
  The texts themselves are not modelled; see the constructors that stand for them below.
\<close>

definition template :: "jsval list \<Rightarrow> js_error + unit" where
  "template interpolated =
     (if list_all printable interpolated then Inr ()
      else Inl (TypeError ''Cannot convert object to primitive value''))"

text \<open>\<open>a || b\<close> on values.\<close>

definition js_or :: "jsval \<Rightarrow> jsval \<Rightarrow> jsval" where
  "js_or a b = (if truthy a then a else b)"

text \<open>An own property of an object; \<open>undefined\<close> when the key is absent.\<close>

definition own :: "(string \<times> jsval) list \<Rightarrow> string \<Rightarrow> jsval" where
  "own kvs k = (case map_of kvs k of None \<Rightarrow> JUndefined | Some v \<Rightarrow> v)"

text \<open>
  \<open>v.k\<close> for the property names the service reads (\<open>status\<close>, \<open>id\<close>,
  \<open>message\<close>, \<open>length\<close>, ...): none of them is inherited from a prototype
  except \<open>length\<close> of arrays and strings. Reading a property of \<open>null\<close> or
  \<open>undefined\<close> throws a \<open>TypeError\<close>; its message is the runtime's (V8's
  wording, with the property name between single quotation marks).
\<close>

definition quoted :: "string \<Rightarrow> string" where
  "quoted k = CHR 0x27 # k @ [CHR 0x27]"

fun getprop :: "jsval \<Rightarrow> string \<Rightarrow> js_error + jsval" where
  "getprop JUndefined k =
     Inl (TypeError (''Cannot read properties of undefined (reading '' @ quoted k @ '')''))"
| "getprop JNull k =
     Inl (TypeError (''Cannot read properties of null (reading '' @ quoted k @ '')''))"
| "getprop (JObj kvs) k = Inr (own kvs k)"
| "getprop (JArr xs) k =
     Inr (if k = ''length'' then JNum (Fin (of_nat (length xs))) else JUndefined)"
| "getprop (JStr s) k =
     Inr (if k = ''length'' then JNum (Fin (of_nat (length s))) else JUndefined)"
| "getprop (JBool b) k = Inr JUndefined"
| "getprop (JNum n) k = Inr JUndefined"

text \<open>\<open>v?.k\<close>: \<open>undefined\<close> on \<open>null\<close> and \<open>undefined\<close>.\<close>

definition optprop :: "jsval \<Rightarrow> string \<Rightarrow> jsval" where
  "optprop v k = (case getprop v k of Inl e \<Rightarrow> JUndefined | Inr x \<Rightarrow> x)"

text \<open>\<open>v[0]\<close>.\<close>

fun elem0 :: "jsval \<Rightarrow> js_error + jsval" where
  "elem0 JUndefined = Inl (TypeError ''Cannot read properties of undefined (reading '0')'')"
| "elem0 JNull = Inl (TypeError ''Cannot read properties of null (reading '0')'')"
| "elem0 (JArr xs) = Inr (case xs of [] \<Rightarrow> JUndefined | x # rest \<Rightarrow> x)"
| "elem0 (JStr s) = Inr (case s of [] \<Rightarrow> JUndefined | c # rest \<Rightarrow> JStr [c])"
| "elem0 (JObj kvs) = Inr (own kvs ''0'')"
| "elem0 (JBool b) = Inr JUndefined"
| "elem0 (JNum n) = Inr JUndefined"

text \<open>Sequencing of computations that may throw.\<close>

definition thenE :: "'e + 'a \<Rightarrow> ('a \<Rightarrow> 'e + 'b) \<Rightarrow> 'e + 'b" where
  "thenE m f = (case m of Inl e \<Rightarrow> Inl e | Inr a \<Rightarrow> f a)"

text \<open>
  \<open>ToNumber\<close> (\<open>Number(v)\<close>, and the operand of a numeric comparison): fixed
  on \<open>undefined\<close>, \<open>null\<close>, booleans and numbers. An object or an array is
  first converted to a primitive value, which throws exactly when \<open>ToString\<close>
  does; an object then reads as \<open>[object Object]\<close>, which is no number. The number
  a string reads as (and an array, through its joined text) is the runtime's and is a
  parameter, \<open>conv\<close>.
\<close>

fun ToNumber :: "(jsval \<Rightarrow> jsnum) \<Rightarrow> jsval \<Rightarrow> js_error + jsnum" where
  "ToNumber conv JUndefined = Inr NaN"
| "ToNumber conv JNull = Inr (Fin 0)"
| "ToNumber conv (JBool b) = Inr (Fin (if b then 1 else 0))"
| "ToNumber conv (JNum n) = Inr n"
| "ToNumber conv (JStr s) = Inr (conv (JStr s))"
| "ToNumber conv (JArr xs) =
     (if printable (JArr xs) then Inr (conv (JArr xs))
      else Inl (TypeError ''Cannot convert object to primitive value''))"
| "ToNumber conv (JObj kvs) =
     (if printable (JObj kvs) then Inr NaN
      else Inl (TypeError ''Cannot convert object to primitive value''))"

text \<open>\<open>v > 0\<close>: a numeric comparison, false on \<open>NaN\<close>.\<close>

definition js_gt_zero :: "(jsval \<Rightarrow> jsnum) \<Rightarrow> jsval \<Rightarrow> js_error + bool" where
  "js_gt_zero conv v =
     thenE (ToNumber conv v) (\<lambda>n.
       Inr (case n of
              NaN \<Rightarrow> False
            | PosInf \<Rightarrow> True
            | NegInf \<Rightarrow> False
            | Fin q \<Rightarrow> 0 < q))"

section \<open>The create-order request and the order reply\<close>

record PhysicalAddress =
  addr_name :: string
  line1 :: string
  line2 :: "string option"
  city :: string
  state :: "string option"
  postalCode :: string
  country :: string

record Recipient =
  recipient_email :: string
  physicalAddress :: "PhysicalAddress option"

record Payment =
  pay_method :: string
  pay_currency :: string
  payerAddress :: string
  receiptEmail :: "string option"

record LineItems =
  productLocator :: string

record CreateOrderRequest =
  recipient :: Recipient
  payment :: Payment
  lineItems :: LineItems

record AmazonProduct =
  title :: string
  price :: string
  amazonUrl :: string
  product_imageUrl :: "string option"
  product_description :: "string option"

text \<open>The shape \<open>OrderResponseSchema\<close> describes, field by field.\<close>

record Money =
  amount :: string
  currency :: string

record ItemMetadata =
  meta_name :: string
  meta_description :: string
  meta_imageUrl :: "string option"

record ItemCharges =
  unit :: Money
  salesTax :: "Money option"
  shipping :: "Money option"

record ItemQuote =
  item_quote_status :: string
  charges :: ItemCharges
  item_totalPrice :: Money

record DeliveryRecipient =
  locator :: string
  delivery_email :: string
  delivery_walletAddress :: "string option"

record ItemDelivery =
  delivery_status :: string
  delivery_recipient :: DeliveryRecipient

record LineItemReply =
  item_chain :: string
  quantity :: jsnum
  metadata :: "ItemMetadata option"
  item_quote :: ItemQuote
  delivery :: ItemDelivery

record OrderQuote =
  quote_status :: string
  quotedAt :: "string option"
  expiresAt :: "string option"
  quote_totalPrice :: Money

record PaymentPreparation =
  prep_chain :: "string option"
  prep_payerAddress :: "string option"
  prep_serializedTransaction :: "string option"

record OrderPayment =
  payment_status :: string
  payment_method :: string
  payment_currency :: string
  preparation :: "PaymentPreparation option"

record Order =
  orderId :: string
  phase :: string
  order_locale :: "string option"
  order_lineItems :: "LineItemReply list"
  order_quote :: OrderQuote
  order_payment :: OrderPayment

record OrderResponse =
  order :: Order
  orderClientSecret :: "string option"

subsection \<open>Schema validation\<close>

text \<open>
  zod's validators on a JSON value; \<open>None\<close> is a failed validation. \<open>z.string()\<close>
  accepts strings only, \<open>z.number()\<close> numbers other than \<open>NaN\<close>,
  \<open>.optional()\<close> accepts \<open>undefined\<close> (an absent key) as well,
  \<open>z.array\<close> an array all of whose elements validate, and \<open>z.object\<close> an object
  (not \<open>null\<close>, not an array) whose listed keys validate; unknown keys are dropped.
\<close>

definition z_string :: "jsval \<Rightarrow> string option" where
  "z_string v = (case v of JStr s \<Rightarrow> Some s | _ \<Rightarrow> None)"

definition z_number :: "jsval \<Rightarrow> jsnum option" where
  "z_number v = (case v of JNum n \<Rightarrow> (if n = NaN then None else Some n) | _ \<Rightarrow> None)"

definition z_optional :: "(jsval \<Rightarrow> 'a option) \<Rightarrow> jsval \<Rightarrow> 'a option option" where
  "z_optional p v = (case v of JUndefined \<Rightarrow> Some None | _ \<Rightarrow> map_option Some (p v))"

definition z_array :: "(jsval \<Rightarrow> 'a option) \<Rightarrow> jsval \<Rightarrow> 'a list option" where
  "z_array p v = (case v of JArr xs \<Rightarrow> those (map p xs) | _ \<Rightarrow> None)"

definition z_object :: "((string \<Rightarrow> jsval) \<Rightarrow> 'a option) \<Rightarrow> jsval \<Rightarrow> 'a option" where
  "z_object p v = (case v of JObj kvs \<Rightarrow> p (own kvs) | _ \<Rightarrow> None)"

definition parseMoney :: "jsval \<Rightarrow> Money option" where
  "parseMoney = z_object (\<lambda>get. do {
     a \<leftarrow> z_string (get ''amount'');
     c \<leftarrow> z_string (get ''currency'');
     Some \<lparr>amount = a, currency = c\<rparr> })"

definition parseItemMetadata :: "jsval \<Rightarrow> ItemMetadata option" where
  "parseItemMetadata = z_object (\<lambda>get. do {
     n \<leftarrow> z_string (get ''name'');
     d \<leftarrow> z_string (get ''description'');
     i \<leftarrow> z_optional z_string (get ''imageUrl'');
     Some \<lparr>meta_name = n, meta_description = d, meta_imageUrl = i\<rparr> })"

definition parseItemCharges :: "jsval \<Rightarrow> ItemCharges option" where
  "parseItemCharges = z_object (\<lambda>get. do {
     u \<leftarrow> parseMoney (get ''unit'');
     t \<leftarrow> z_optional parseMoney (get ''salesTax'');
     h \<leftarrow> z_optional parseMoney (get ''shipping'');
     Some \<lparr>unit = u, salesTax = t, shipping = h\<rparr> })"

definition parseItemQuote :: "jsval \<Rightarrow> ItemQuote option" where
  "parseItemQuote = z_object (\<lambda>get. do {
     st \<leftarrow> z_string (get ''status'');
     ch \<leftarrow> parseItemCharges (get ''charges'');
     tp \<leftarrow> parseMoney (get ''totalPrice'');
     Some \<lparr>item_quote_status = st, charges = ch, item_totalPrice = tp\<rparr> })"

definition parseDeliveryRecipient :: "jsval \<Rightarrow> DeliveryRecipient option" where
  "parseDeliveryRecipient = z_object (\<lambda>get. do {
     l \<leftarrow> z_string (get ''locator'');
     e \<leftarrow> z_string (get ''email'');
     w \<leftarrow> z_optional z_string (get ''walletAddress'');
     Some \<lparr>locator = l, delivery_email = e, delivery_walletAddress = w\<rparr> })"

definition parseItemDelivery :: "jsval \<Rightarrow> ItemDelivery option" where
  "parseItemDelivery = z_object (\<lambda>get. do {
     st \<leftarrow> z_string (get ''status'');
     r \<leftarrow> parseDeliveryRecipient (get ''recipient'');
     Some \<lparr>delivery_status = st, delivery_recipient = r\<rparr> })"

definition parseLineItem :: "jsval \<Rightarrow> LineItemReply option" where
  "parseLineItem = z_object (\<lambda>get. do {
     c \<leftarrow> z_string (get ''chain'');
     q \<leftarrow> z_number (get ''quantity'');
     m \<leftarrow> z_optional parseItemMetadata (get ''metadata'');
     iq \<leftarrow> parseItemQuote (get ''quote'');
     d \<leftarrow> parseItemDelivery (get ''delivery'');
     Some \<lparr>item_chain = c, quantity = q, metadata = m, item_quote = iq, delivery = d\<rparr> })"

definition parseOrderQuote :: "jsval \<Rightarrow> OrderQuote option" where
  "parseOrderQuote = z_object (\<lambda>get. do {
     st \<leftarrow> z_string (get ''status'');
     qa \<leftarrow> z_optional z_string (get ''quotedAt'');
     ea \<leftarrow> z_optional z_string (get ''expiresAt'');
     tp \<leftarrow> parseMoney (get ''totalPrice'');
     Some \<lparr>quote_status = st, quotedAt = qa, expiresAt = ea, quote_totalPrice = tp\<rparr> })"

definition parsePreparation :: "jsval \<Rightarrow> PaymentPreparation option" where
  "parsePreparation = z_object (\<lambda>get. do {
     c \<leftarrow> z_optional z_string (get ''chain'');
     a \<leftarrow> z_optional z_string (get ''payerAddress'');
     t \<leftarrow> z_optional z_string (get ''serializedTransaction'');
     Some \<lparr>prep_chain = c, prep_payerAddress = a, prep_serializedTransaction = t\<rparr> })"

definition parseOrderPayment :: "jsval \<Rightarrow> OrderPayment option" where
  "parseOrderPayment = z_object (\<lambda>get. do {
     st \<leftarrow> z_string (get ''status'');
     m \<leftarrow> z_string (get ''method'');
     c \<leftarrow> z_string (get ''currency'');
     p \<leftarrow> z_optional parsePreparation (get ''preparation'');
     Some \<lparr>payment_status = st, payment_method = m, payment_currency = c, preparation = p\<rparr> })"

definition parseOrder :: "jsval \<Rightarrow> Order option" where
  "parseOrder = z_object (\<lambda>get. do {
     i \<leftarrow> z_string (get ''orderId'');
     ph \<leftarrow> z_string (get ''phase'');
     lo \<leftarrow> z_optional z_string (get ''locale'');
     li \<leftarrow> z_array parseLineItem (get ''lineItems'');
     q \<leftarrow> parseOrderQuote (get ''quote'');
     p \<leftarrow> parseOrderPayment (get ''payment'');
     Some \<lparr>orderId = i, phase = ph, order_locale = lo, order_lineItems = li,
            order_quote = q, order_payment = p\<rparr> })"

text \<open>\<open>OrderResponseSchema.parse\<close>: \<open>None\<close> stands for the thrown \<open>ZodError\<close>.\<close>

definition OrderResponseSchema_parse :: "jsval \<Rightarrow> OrderResponse option" where
  "OrderResponseSchema_parse = z_object (\<lambda>get. do {
     o1 \<leftarrow> parseOrder (get ''order'');
     sec \<leftarrow> z_optional z_string (get ''orderClientSecret'');
     Some \<lparr>order = o1, orderClientSecret = sec\<rparr> })"

section \<open>Order Submission Engine\<close>

text \<open>
  What \<open>await axios.post(...)\<close> or \<open>await axios.get(...)\<close> does: it resolves
  with a reply or rejects with an error. The provider is a state machine \<open>post\<close>:
  from its state and the request it gives the outcome and its next state. A call of
  \<open>console.log\<close> is modelled where its argument interpolates a value of the reply or
  of the request body, which is untyped: building the text can throw (\<open>template\<close>).
  The other calls print strings and numbers and are left out.
\<close>

datatype http_outcome = Resolved axios_response | Rejected js_error

text \<open>
  \<open>message?.includes('Product not found')\<close>: \<open>undefined\<close> (falsy) on a missing
  message, the substring test on a string, membership on an array, and a
  \<open>TypeError\<close> on any other value, which has no method \<open>includes\<close>.
\<close>

definition message_includes :: "jsval \<Rightarrow> string \<Rightarrow> js_error + bool" where
  "message_includes message needle =
     (case message of
        JUndefined \<Rightarrow> Inr False
      | JNull \<Rightarrow> Inr False
      | JStr s \<Rightarrow> Inr (js_includes s needle)
      | JArr xs \<Rightarrow> Inr (JStr needle \<in> set xs)
      | _ \<Rightarrow> Inl (TypeError ''message?.includes is not a function''))"

text \<open>\<open>error.response?.data?.message\<close> of an axios error.\<close>

definition responseMessage :: "axios_response option \<Rightarrow> jsval" where
  "responseMessage response =
     (case response of None \<Rightarrow> JUndefined | Some r \<Rightarrow> optprop (resp_data r) ''message'')"

text \<open>
  One pass through the body of the loop of \<open>createOrderWithRetry\<close>, from the outcome
  of the request: the function returns the parsed reply, or the \<open>catch\<close> block
  records the error and the loop goes on, or the \<open>catch\<close> block throws. On an axios
  error the block first logs \<open>Status: ${status}, Message: ${message}\<close>.
\<close>

datatype attempt = Returned OrderResponse | Continued js_error | Thrown js_error

definition attempt_of :: "http_outcome \<Rightarrow> attempt" where
  "attempt_of outcome =
     (case outcome of
        Resolved response \<Rightarrow>
          (case OrderResponseSchema_parse (resp_data response) of
             Some parsed \<Rightarrow> Returned parsed
           | None \<Rightarrow> Continued ZodError)
      | Rejected err \<Rightarrow>
          (case err of
             AxiosError response msg \<Rightarrow>
               (let status = map_option resp_status response;
                    message = responseMessage response
                in case template [message] of
                     Inl type_error \<Rightarrow> Thrown type_error
                   | Inr logged \<Rightarrow>
                       if status \<noteq> Some 400 then Thrown err
                       else (case message_includes message ''Product not found'' of
                               Inl type_error \<Rightarrow> Thrown type_error
                             | Inr found \<Rightarrow> if \<not> found then Thrown err else Continued err))
           | _ \<Rightarrow> Continued err))"

text \<open>
  The loop over the locator variations, from \<open>lastError\<close> and the provider's state.
  It gives what the function returns (\<open>Inr\<close>) or throws (\<open>Inl\<close>, where \<open>None\<close>
  is the initial \<open>null\<close> of \<open>lastError\<close>), the provider's state, and the requests
  issued with their outcomes, in order.
\<close>

fun createOrderWithRetry_from ::
  "('s \<Rightarrow> CreateOrderRequest \<Rightarrow> http_outcome \<times> 's) \<Rightarrow> CreateOrderRequest \<Rightarrow> string list \<Rightarrow>
     js_error option \<Rightarrow> 's \<Rightarrow>
     (js_error option + OrderResponse) \<times> 's \<times> (CreateOrderRequest \<times> http_outcome) list" where
  "createOrderWithRetry_from post orderRequest [] lastError s = (Inl lastError, s, [])"
| "createOrderWithRetry_from post orderRequest (loc # rest) lastError s =
     (let currentRequest = orderRequest\<lparr>lineItems := \<lparr>productLocator = loc\<rparr>\<rparr>
      in case post s currentRequest of
           (outcome, s1) \<Rightarrow>
             (case attempt_of outcome of
                Returned parsed \<Rightarrow> (Inr parsed, s1, [(currentRequest, outcome)])
              | Thrown e \<Rightarrow> (Inl (Some e), s1, [(currentRequest, outcome)])
              | Continued e \<Rightarrow>
                  (case createOrderWithRetry_from post orderRequest rest (Some e) s1 of
                     (res, s2, issued) \<Rightarrow> (res, s2, (currentRequest, outcome) # issued))))"

definition createOrderWithRetry ::
  "('s \<Rightarrow> CreateOrderRequest \<Rightarrow> http_outcome \<times> 's) \<Rightarrow> CreateOrderRequest \<Rightarrow> string list \<Rightarrow> 's \<Rightarrow>
     (js_error option + OrderResponse) \<times> 's \<times> (CreateOrderRequest \<times> http_outcome) list" where
  "createOrderWithRetry post orderRequest productLocatorVariations s =
     createOrderWithRetry_from post orderRequest productLocatorVariations None s"

text \<open>An attempt is successful: the request resolved and its body passed the schema.\<close>

definition successful :: "http_outcome \<Rightarrow> bool" where
  "successful outcome = (case attempt_of outcome of Returned parsed \<Rightarrow> True | _ \<Rightarrow> False)"

section \<open>Order Builder and outcome classification\<close>

record WalletOrder = OrderResponse +
  requiresTransaction :: bool
  serializedTransaction :: string

text \<open>
  The checks of \<open>createWalletAmazonOrder\<close> on the parsed reply (after
  \<open>createOrderWithRetry\<close> has returned): what the \<open>try\<close> block returns or throws.
\<close>

definition classifyOrder :: "OrderResponse \<Rightarrow> js_error + WalletOrder" where
  "classifyOrder validatedResponse =
     (let ord = order validatedResponse
      in if payment_status (order_payment ord) = ''crypto-payer-insufficient-funds''
         then Inl (Error ''Insufficient USDC funds in wallet'')
         else if quote_status (order_quote ord) = ''requires-physical-address''
         then Inl (Error ''Physical address is required for this product'')
         else (case Option.bind (preparation (order_payment ord)) prep_serializedTransaction of
                 None \<Rightarrow>
                   Inl (Error ''No serialized transaction found for order. This item may not be available for purchase.'')
               | Some tx \<Rightarrow>
                   if tx = []
                   then Inl (Error ''No serialized transaction found for order. This item may not be available for purchase.'')
                   else Inr \<lparr>order = ord,
                             orderClientSecret = orderClientSecret validatedResponse,
                             requiresTransaction = True,
                             serializedTransaction = tx\<rparr>))"

text \<open>
  The errors the \<open>catch\<close> block of \<open>createWalletAmazonOrder\<close> throws, one
  constructor for each \<open>throw new Error(...)\<close>, carrying the value its message
  interpolates:
  \<^item> \<open>InvalidOrderData m\<close>: \<open>Invalid order data: ${m}\<close>;
  \<^item> \<open>InvalidApiKey\<close>: \<open>Invalid Crossmint API key or insufficient permissions\<close>;
  \<^item> \<open>ProductNotSupported\<close>: \<open>Product not found or not supported for Amazon purchases\<close>;
  \<^item> \<open>ServiceUnavailable\<close>: \<open>Crossmint service is temporarily unavailable\<close>;
  \<^item> \<open>OrderCreationFailed m\<close>: \<open>Order creation failed: ${m}\<close>;
  \<^item> \<open>InvalidResponseFormat\<close>: \<open>Invalid response format from Crossmint API\<close>;
  \<^item> \<open>UnexpectedError e\<close>: \<open>Unexpected error during order creation: ${e}\<close>.
  When building the message throws, that \<open>TypeError\<close> leaves the function in place
  of the new error: \<open>Uncaught\<close>.
\<close>

datatype order_error =
    InvalidOrderData jsval
  | InvalidApiKey
  | ProductNotSupported
  | ServiceUnavailable
  | OrderCreationFailed jsval
  | InvalidResponseFormat
  | UnexpectedError "js_error option"
  | Uncaught js_error

definition orderCatch :: "js_error option \<Rightarrow> order_error" where
  "orderCatch caught =
     (case caught of
        Some (AxiosError response msg) \<Rightarrow>
          (let status = map_option resp_status response;
               message = js_or (responseMessage response)
                               (case response of
                                  None \<Rightarrow> JUndefined
                                | Some r \<Rightarrow> JStr (resp_statusText r))
           in if status = Some 400
              then (let shown = js_or message (JStr ''Check product locator and payment details'')
                    in case template [shown] of
                         Inl type_error \<Rightarrow> Uncaught type_error
                       | Inr built \<Rightarrow> InvalidOrderData shown)
              else if status = Some 401 \<or> status = Some 403 then InvalidApiKey
              else if status = Some 404 then ProductNotSupported
              else if (case status of None \<Rightarrow> False | Some n \<Rightarrow> n \<noteq> 0 \<and> 500 \<le> n)
              then ServiceUnavailable
              else (let shown = js_or message (JStr msg)
                    in case template [shown] of
                         Inl type_error \<Rightarrow> Uncaught type_error
                       | Inr built \<Rightarrow> OrderCreationFailed shown))
      | Some ZodError \<Rightarrow> InvalidResponseFormat
      | _ \<Rightarrow> UnexpectedError caught)"

text \<open>\<open>!s\<close> on an optional string: absent or empty.\<close>

definition falsy_str :: "string option \<Rightarrow> bool" where
  "falsy_str v = (case v of None \<Rightarrow> True | Some s \<Rightarrow> s = [])"

text \<open>
  The \<open>try\<close> block of \<open>createWalletAmazonOrder\<close>. Where the locator and the
  ASIN are used, the two checks before have established that they are present.
\<close>

definition createWalletAmazonOrder_try ::
  "('s \<Rightarrow> CreateOrderRequest \<Rightarrow> http_outcome \<times> 's) \<Rightarrow> AmazonProduct \<Rightarrow> string \<Rightarrow> string \<Rightarrow>
     PhysicalAddress \<Rightarrow> 's \<Rightarrow>
     (js_error option + WalletOrder) \<times> 's \<times> (CreateOrderRequest \<times> http_outcome) list" where
  "createWalletAmazonOrder_try post product userEmail walletAddress shippingAddress s =
     (let productLocator = extractProductLocator (amazonUrl product)
      in if falsy_str productLocator
         then (Inl (Some (Error ''Could not extract product locator from Amazon URL'')), s, [])
         else
          (let asinMatch = regex_first asin_pattern_at (amazonUrl product)
           in if falsy_str asinMatch
              then (Inl (Some (Error ''Could not extract ASIN from Amazon URL'')), s, [])
              else if country shippingAddress \<noteq> ''US''
              then (Inl (Some (Error ''Only US shipping addresses are supported at this time'')), s, [])
              else if falsy_str (state shippingAddress)
              then (Inl (Some (Error ''State is required for US shipping addresses'')), s, [])
              else
               (let blockchainMethod = getBestBlockchainForWallet walletAddress;
                    orderRequest =
                      \<lparr>recipient = \<lparr>recipient_email = userEmail,
                                    physicalAddress = Some shippingAddress\<rparr>,
                       payment = \<lparr>pay_method = blockchainMethod,
                                  pay_currency = ''usdc'',
                                  payerAddress = walletAddress,
                                  receiptEmail = Some userEmail\<rparr>,
                       lineItems = \<lparr>productLocator = the productLocator\<rparr>\<rparr>;
                    productLocatorVariations =
                      getProductLocatorVariations (the asinMatch) (amazonUrl product)
                in case createOrderWithRetry post orderRequest productLocatorVariations s of
                     (Inl e, s1, issued) \<Rightarrow> (Inl e, s1, issued)
                   | (Inr validatedResponse, s1, issued) \<Rightarrow>
                       (case classifyOrder validatedResponse of
                          Inl e \<Rightarrow> (Inl (Some e), s1, issued)
                        | Inr result \<Rightarrow> (Inr result, s1, issued)))))"

text \<open>
  \<open>createWalletAmazonOrder\<close>: what it returns or throws, the provider's state, and
  the create-order requests it issued.
\<close>

definition createWalletAmazonOrder ::
  "('s \<Rightarrow> CreateOrderRequest \<Rightarrow> http_outcome \<times> 's) \<Rightarrow> AmazonProduct \<Rightarrow> string \<Rightarrow> string \<Rightarrow>
     PhysicalAddress \<Rightarrow> 's \<Rightarrow>
     (order_error + WalletOrder) \<times> 's \<times> (CreateOrderRequest \<times> http_outcome) list" where
  "createWalletAmazonOrder post product userEmail walletAddress shippingAddress s =
     (case createWalletAmazonOrder_try post product userEmail walletAddress shippingAddress s of
        (Inl caught, s1, issued) \<Rightarrow> (Inl (orderCatch caught), s1, issued)
      | (Inr result, s1, issued) \<Rightarrow> (Inr result, s1, issued))"

section \<open>Transaction Signing Coordinator and Approval Relay\<close>

text \<open>
  The \<open>error\<close> strings of the result objects, one constructor for each template,
  carrying what it interpolates:
  \<^item> \<open>TransactionFailedWithStatus n\<close>: \<open>Transaction failed with status: ${n}\<close>;
  \<^item> \<open>TransactionSigningFailed m\<close>: \<open>Transaction signing failed: ${m}\<close>;
  \<^item> \<open>NotAwaitingApproval st\<close>:
    \<open>Transaction is not awaiting approval. Current status: ${st}\<close>;
  \<^item> \<open>FailedToFetchTransaction m\<close>: \<open>Failed to fetch transaction: ${m}\<close>;
  \<^item> \<open>NetworkError e\<close>: \<open>Network error: ${e.message}\<close>.
\<close>

datatype api_failure =
    TransactionFailedWithStatus nat
  | TransactionSigningFailed jsval
  | NotAwaitingApproval jsval
  | FailedToFetchTransaction jsval
  | NetworkError js_error


text \<open>
  The object \<open>signOrderTransaction\<close> resolves with; a key the object does not have
  is \<open>None\<close>.
\<close>

record SignResult =
  success :: bool
  transactionId :: "jsval option"
  status :: "jsval option"
  transactionData :: "jsval option"
  error :: "api_failure option"




text \<open>The object \<open>getTransactionDetails\<close> resolves with.\<close>

record TransactionDetails =
  transaction :: jsval
  pendingMessage :: "jsval option"
  signerLocator :: "jsval option"
  details_error :: "api_failure option"

text \<open>
  The condition of its \<open>if\<close>: \<open>status === 'awaiting-approval'\<close> and
  \<open>approvals\<close> and \<open>approvals.pending\<close> and \<open>approvals.pending.length > 0\<close>, which
  gives \<open>approvals.pending\<close> when it holds.
\<close>

definition pendingApprovals :: "(jsval \<Rightarrow> jsnum) \<Rightarrow> jsval \<Rightarrow> jsval \<Rightarrow> js_error + jsval option" where
  "pendingApprovals conv txData txStatus =
     (if txStatus \<noteq> JStr ''awaiting-approval'' then Inr None
      else thenE (getprop txData ''approvals'') (\<lambda>approvals.
           if \<not> truthy approvals then Inr None
           else thenE (getprop approvals ''pending'') (\<lambda>pending.
                if \<not> truthy pending then Inr None
                else thenE (getprop pending ''length'') (\<lambda>len.
                     thenE (js_gt_zero conv len) (\<lambda>positive.
                       if positive then Inr (Some pending) else Inr None)))))"

text \<open>
  The \<open>try\<close> block of \<open>getTransactionDetails\<close>: the approval branch logs the
  message and the signer, the other branch the status, each in a template literal, before
  it returns.
\<close>

definition getTransactionDetails_try ::
  "(jsval \<Rightarrow> jsnum) \<Rightarrow> http_outcome \<Rightarrow> js_error + TransactionDetails" where
  "getTransactionDetails_try conv outcome =
     (case outcome of
        Rejected err \<Rightarrow> Inl err
      | Resolved response \<Rightarrow>
          (let txData = resp_data response
           in thenE (getprop txData ''status'') (\<lambda>txStatus.
              thenE (pendingApprovals conv txData txStatus) (\<lambda>found.
                case found of
                  Some pending \<Rightarrow>
                    thenE (elem0 pending) (\<lambda>pendingApproval.
                    thenE (getprop pendingApproval ''message'') (\<lambda>message.
                    thenE (getprop pendingApproval ''signer'') (\<lambda>signer.
                    thenE (template [message, signer]) (\<lambda>logged.
                      Inr \<lparr>transaction = txData,
                           pendingMessage = Some message,
                           signerLocator = Some signer,
                           details_error = None\<rparr>))))
                | None \<Rightarrow>
                    thenE (template [txStatus]) (\<lambda>logged.
                      Inr \<lparr>transaction = txData,
                           pendingMessage = None,
                           signerLocator = None,
                           details_error = Some (NotAwaitingApproval txStatus)\<rparr>)))))"

text \<open>
  Its \<open>catch\<close> block, built like that of \<open>signOrderTransaction\<close>.
\<close>

definition getTransactionDetails_catch :: "js_error \<Rightarrow> js_error + TransactionDetails" where
  "getTransactionDetails_catch err =
     (case err of
        AxiosError (Some r) msg \<Rightarrow>
          (let shown = js_or (optprop (resp_data r) ''message'') (JStr (resp_statusText r))
           in thenE (template [shown]) (\<lambda>built.
                Inr \<lparr>transaction = JNull, pendingMessage = None, signerLocator = None,
                     details_error = Some (FailedToFetchTransaction shown)\<rparr>))
      | _ \<Rightarrow>
          Inr \<lparr>transaction = JNull, pendingMessage = None, signerLocator = None,
               details_error = Some (NetworkError err)\<rparr>)"

text \<open>
  \<open>getTransactionDetails\<close>, the spec's \<open>fetchPendingApproval\<close>. \<open>get\<close> is the
  provider's answer to \<open>GET /wallets/{walletAddress}/transactions/{transactionId}\<close>.
\<close>

definition getTransactionDetails ::
  "(jsval \<Rightarrow> jsnum) \<Rightarrow> ('s \<Rightarrow> string \<times> string \<Rightarrow> http_outcome \<times> 's) \<Rightarrow> string \<Rightarrow> string \<Rightarrow> 's \<Rightarrow>
     (js_error + TransactionDetails) \<times> 's" where
  "getTransactionDetails conv get walletAddress txId s =
     (case get s (walletAddress, txId) of
        (outcome, s1) \<Rightarrow>
          (case getTransactionDetails_try conv outcome of
             Inl err \<Rightarrow> (getTransactionDetails_catch err, s1)
           | Inr result \<Rightarrow> (Inr result, s1)))"

section \<open>Settlement Notifier: the webhook handlers\<close>

text \<open>
  The handlers call collaborators whose code is outside the source files:
  \<^item> \<open>crossmintWalletService.updateUserAuth\<close>, \<open>hasWallet\<close> and
    \<open>getUser\<close> work on the wallet-auth state, which is modelled from the spec
    (below);
  \<^item> \<open>memoryUtils.getUserMemory(id)\<close> throws, or gives nothing, or gives the user's
    memory object: the outcome of the lookup is an input. The handler writes to the object
    in place, so the model returns the object as the handler leaves it;
  \<^item> \<open>telegramBot.sendMessage\<close> is a state machine \<open>sendMessage\<close>: from the
    transport's state, the chat and the message it says whether the call resolved
    (\<open>True\<close>) or threw, and gives the next state;
  \<^item> \<open>crossmintWalletService.getWalletBalance\<close> is a state machine
    \<open>getWalletBalance\<close>: from the provider's state and the user it throws, or
    returns nothing, or returns the balances, and gives the next state.
  \<open>Date.now()\<close> is an input as well.
\<close>

record WalletData =
  wd_crossmintUserId :: jsval
  wd_walletAddress :: jsval
  wd_authToken :: jsval
  wd_email :: jsval

text \<open>
  Modelled from the spec: the state of \<open>crossmintWalletService\<close>, whose code
  (\<open>commerce/crossmint/wallet.js\<close>) is not among the source files. The spec
  describes the per-user wallet-auth state as a key-value store accessed by user
  identifier.
\<close>

type_synonym authStore = "jsnum \<Rightarrow> WalletData option"

text \<open>
  Modelled from the spec: \<open>crossmintWalletService.updateUserAuth\<close>, whose code is
  not among the source files. The spec: the handler updates the session wallet-auth state
  of the user, and updates of that state are last-write-wins.
\<close>

definition updateUserAuth :: "authStore \<Rightarrow> jsnum \<Rightarrow> WalletData \<Rightarrow> authStore" where
  "updateUserAuth ws userId walletData = ws(userId \<mapsto> walletData)"

text \<open>
  Modelled from the spec: \<open>crossmintWalletService.getUser\<close> and
  \<open>hasWallet\<close>, whose code is not among the source files. The spec: the handler
  confirms the update by re-reading the state.
\<close>

definition getUser :: "authStore \<Rightarrow> jsnum \<Rightarrow> WalletData option" where
  "getUser ws userId = ws userId"

definition hasWallet :: "authStore \<Rightarrow> jsnum \<Rightarrow> bool" where
  "hasWallet ws userId = (getUser ws userId \<noteq> None)"

record WalletInfo =
  address :: jsval
  crossmintUserId :: jsval
  email :: jsval
  authToken :: jsval
  createdAt :: nat
  isVerified :: bool
  lastTopUpAmount :: "jsval option"
  lastTopUpAt :: "nat option"
  lastVerifiedBalance :: "string option"
  lastBalanceCheck :: "nat option"

text \<open>A user's memory object: its \<open>walletInfo\<close> property and the rest of it.\<close>

record 'm UserMemory =
  walletInfo :: "WalletInfo option"
  other :: 'm



text \<open>
  The messages sent to the user, one constructor for each text, carrying what the text
  interpolates:
  \<^item> \<open>WalletCreatedNotice a\<close>: the wallet-created text, whose address line is
    \<open>Wallet Address: ${a}\<close>;
  \<^item> \<open>PaymentVerifiedNotice amount currency balance txId\<close>: the payment text with the
    line \<open>Current Balance: ${parseFloat(balance).toFixed(2)} USDC\<close>;
  \<^item> \<open>PaymentFallbackNotice amount currency txId\<close>: the payment text without a balance
    (\<open>has been processed\<close>, \<open>Use /balance to check your updated balance\<close>).
\<close>

datatype notification =
    WalletCreatedNotice string
  | PaymentVerifiedNotice jsval jsval string jsval
  | PaymentFallbackNotice jsval jsval jsval

text \<open>
  The replies of the two handlers:
  \<^item> \<open>BadRequest e\<close>: \<open>res.status(400).json({error: e})\<close>;
  \<^item> \<open>InternalError m\<close>:
    \<open>res.status(500).json({error: 'Internal server error', message: m})\<close>;
  \<^item> \<open>WalletCreated userId walletAddress\<close>: \<open>res.json({success: true, message:
    'Wallet creation processed successfully', userId, walletAddress})\<close>;
  \<^item> \<open>PaymentProcessed sessionId amount transactionId\<close>: \<open>res.json({success: true,
    message: 'Payment processed successfully', sessionId, amount, transactionId})\<close>.
\<close>

datatype reply =
    BadRequest string
  | InternalError string
  | WalletCreated jsnum string
  | PaymentProcessed jsval jsval jsval



text \<open>
  \<open>walletAddress.substring(0, 8) + '...' + walletAddress.substring(-6)\<close>; a value
  that is not a string has no method \<open>substring\<close>.
\<close>

definition maskedAddress :: "jsval \<Rightarrow> js_error + string" where
  "maskedAddress walletAddress =
     (case walletAddress of
        JStr a \<Rightarrow> Inr (substring a 0 (Some 8) @ ''...'' @ substring a (- 6) None)
      | _ \<Rightarrow> Inl (TypeError ''walletAddress.substring is not a function''))"

text \<open>
  The state a handler works on: the wallet service, the outcome of
  \<open>getUserMemory\<close> for the user of the request (an error thrown, or nothing, or the
  memory object) and the transport. The wallet-created handler gives its reply, the state,
  and its calls of \<open>sendMessage\<close> with whether each resolved.
\<close>

record ('w, 'm, 't) world =
  walletService :: 'w
  memory :: "js_error + 'm UserMemory option"
  transport :: 't

type_synonym sent = "(jsval \<times> notification \<times> bool) list"

subsection \<open>\<open>POST /api/webhook/wallet-created\<close>\<close>

text \<open>
  Every exception raised in the handler reaches its \<open>catch\<close> block, which answers
  500; what the handler has written by then stays written. In the order of the source:
  the body is destructured (which throws on \<open>null\<close> and \<open>undefined\<close>), the
  required fields are tested, \<open>Number(userId)\<close> is taken, the log line
  \<open>Wallet created for user ${userId}: ${walletAddress}\<close> is built, the wallet
  service is updated, the memory object is looked up and written, the message text is
  built and sent. The re-reads \<open>hasWallet\<close> and \<open>getUser\<close> only feed
  \<open>console.log\<close>, with a boolean and with \<open>JSON.stringify\<close> of the record,
  neither of which can throw: \<open>verified\<close>, \<open>detected\<close> and
  \<open>userData\<close> below are what is logged.
\<close>

definition walletCreatedHandler ::
  "(jsval \<Rightarrow> jsnum) \<Rightarrow> ('t \<Rightarrow> jsval \<Rightarrow> notification \<Rightarrow> bool \<times> 't) \<Rightarrow> nat \<Rightarrow> jsval \<Rightarrow>
     (authStore, 'm, 't) world \<Rightarrow> reply \<times> (authStore, 'm, 't) world \<times> sent" where
  "walletCreatedHandler conv sendMessage now body w =
     (let failed = InternalError ''Failed to process wallet creation''
      in case getprop body ''userId'' of
        Inl e \<Rightarrow> (failed, w, [])
      | Inr userId \<Rightarrow>
          (let walletAddress = optprop body ''walletAddress'';
               cmUserId = optprop body ''crossmintUserId'';
               mail = optprop body ''email'';
               token = optprop body ''authToken''
           in if \<not> truthy userId \<or> \<not> truthy walletAddress \<or> \<not> truthy cmUserId
              then (BadRequest ''Missing required fields: userId, walletAddress, crossmintUserId'', w, [])
              else
               (case ToNumber conv userId of
                  Inl e \<Rightarrow> (failed, w, [])
                | Inr numericUserId \<Rightarrow>
                    if numericUserId = NaN
                    then (case template [userId] of
                            Inl e \<Rightarrow> (failed, w, [])
                          | Inr logged \<Rightarrow> (BadRequest ''Invalid userId format. Must be a number.'', w, []))
                    else
                     (case template [userId, walletAddress] of
                        Inl e \<Rightarrow> (failed, w, [])
                      | Inr logged \<Rightarrow>
                          (let walletData = \<lparr>wd_crossmintUserId = cmUserId,
                                             wd_walletAddress = walletAddress,
                                             wd_authToken = token,
                                             wd_email = mail\<rparr>;
                               w1 = w\<lparr>walletService :=
                                      updateUserAuth (walletService w) numericUserId walletData\<rparr>;
                               verified = hasWallet (walletService w1) numericUserId
                           in case memory w1 of
                                Inl e \<Rightarrow> (failed, w1, [])
                              | Inr found \<Rightarrow>
                                  (let w2 = w1\<lparr>memory := Inr
                                         (map_option
                                            (\<lambda>m. m\<lparr>walletInfo := Some
                                               \<lparr>address = walletAddress,
                                                crossmintUserId = cmUserId,
                                                email = mail,
                                                authToken = token,
                                                createdAt = now,
                                                isVerified = True,
                                                lastTopUpAmount = None,
                                                lastTopUpAt = None,
                                                lastVerifiedBalance = None,
                                                lastBalanceCheck = None\<rparr>\<rparr>)
                                            found)\<rparr>;
                                       detected = hasWallet (walletService w2) numericUserId;
                                       userData = getUser (walletService w2) numericUserId
                                   in case maskedAddress walletAddress of
                                        Inl e \<Rightarrow> (failed, w2, [])
                                      | Inr masked \<Rightarrow>
                                          (case sendMessage (transport w2) (JNum numericUserId)
                                                  (WalletCreatedNotice masked) of
                                             (delivered, t1) \<Rightarrow>
                                               (if delivered then WalletCreated numericUserId masked
                                                else failed,
                                                w2\<lparr>transport := t1\<rparr>,
                                                [(JNum numericUserId, WalletCreatedNotice masked,
                                                  delivered)]))))))))"

subsection \<open>\<open>POST /api/webhook/payment-completed\<close>\<close>







section \<open>Notions used in the statements\<close>

text \<open>The locators of the requests issued, in order.\<close>

definition locatorsOf :: "(CreateOrderRequest \<times> http_outcome) list \<Rightarrow> string list" where
  "locatorsOf issued = map (\<lambda>(request, outcome). productLocator (lineItems request)) issued"

text \<open>
  The wallet-created handler reaches its state updates: the body passes the two checks
  (the required fields are truthy and \<open>Number(userId)\<close> is a number), and the user
  id and the wallet address can be converted to text for the log line before the updates.
\<close>

definition accepted :: "(jsval \<Rightarrow> jsnum) \<Rightarrow> jsval \<Rightarrow> bool" where
  "accepted conv body \<longleftrightarrow>
     truthy (optprop body ''userId'') \<and> truthy (optprop body ''walletAddress'')
     \<and> truthy (optprop body ''crossmintUserId'')
     \<and> (case ToNumber conv (optprop body ''userId'') of
          Inl e \<Rightarrow> False
        | Inr numericUserId \<Rightarrow> numericUserId \<noteq> NaN)
     \<and> printable (optprop body ''userId'') \<and> printable (optprop body ''walletAddress'')"

text \<open>
  A memory lookup with the \<open>createdAt\<close> of its wallet info, if it has one, set to
  the given time, and everything else as it is.
\<close>

definition restamped ::
  "nat \<Rightarrow> js_error + 'm UserMemory option \<Rightarrow> js_error + 'm UserMemory option" where
  "restamped t found =
     map_sum id
       (map_option (\<lambda>m. m\<lparr>walletInfo := map_option (\<lambda>wi. wi\<lparr>createdAt := t\<rparr>) (walletInfo m)\<rparr>))
       found"



section \<open>Sample inputs\<close>

text \<open>
  A reply body that passes \<open>OrderResponseSchema\<close>, with the given
  \<open>payment.status\<close> and a serialized transaction in the payment preparation.
\<close>

definition orderBody :: "string \<Rightarrow> jsval" where
  "orderBody paymentStatus =
     JObj [(''order'', JObj
        [(''orderId'', JStr ''ord-1''),
         (''phase'', JStr ''payment''),
         (''lineItems'', JArr []),
         (''quote'', JObj
            [(''status'', JStr ''valid''),
             (''totalPrice'', JObj [(''amount'', JStr ''12.50''), (''currency'', JStr ''usdc'')])]),
         (''payment'', JObj
            [(''status'', JStr paymentStatus),
             (''method'', JStr ''base-sepolia''),
             (''currency'', JStr ''usdc''),
             (''preparation'', JObj [(''serializedTransaction'', JStr ''0xabc'')])])])]"

definition sampleProduct :: AmazonProduct where
  "sampleProduct =
     \<lparr>title = ''Sample'', price = ''12.50'',
      amazonUrl = ''https://www.amazon.com/dp/B01DFKC2SO'',
      product_imageUrl = None, product_description = None\<rparr>"

definition sampleAddress :: "string \<Rightarrow> string option \<Rightarrow> PhysicalAddress" where
  "sampleAddress c st =
     \<lparr>addr_name = ''A. Buyer'', line1 = ''1 Main St'', line2 = None, city = ''Springfield'',
      state = st, postalCode = ''12345'', country = c\<rparr>"

definition sampleRequest :: CreateOrderRequest where
  "sampleRequest =
     \<lparr>recipient = \<lparr>recipient_email = ''a@b.c'', physicalAddress = None\<rparr>,
      payment = \<lparr>pay_method = ''base-sepolia'', pay_currency = ''usdc'',
                 payerAddress = ''0xfeed'', receiptEmail = None\<rparr>,
      lineItems = \<lparr>productLocator = []\<rparr>\<rparr>"

definition okReply :: "jsval \<Rightarrow> http_outcome" where
  "okReply body = Resolved \<lparr>resp_status = 200, resp_statusText = ''OK'', resp_data = body\<rparr>"

definition notFoundReply :: http_outcome where
  "notFoundReply =
     Rejected (AxiosError
       (Some \<lparr>resp_status = 400, resp_statusText = ''Bad Request'',
              resp_data = JObj [(''message'', JStr ''Product not found: unknown locator'')]\<rparr>)
       ''Request failed with status code 400'')"

text \<open>
  Providers whose state counts the requests received: one that always answers with the
  same outcome, and one that answers \<open>Product not found\<close> to the first \<open>n\<close> requests
  and then with the given outcome.
\<close>

definition always :: "'o \<Rightarrow> nat \<Rightarrow> 'r \<Rightarrow> 'o \<times> nat" where
  "always outcome s req = (outcome, Suc s)"

definition notFoundFirst :: "nat \<Rightarrow> http_outcome \<Rightarrow> nat \<Rightarrow> 'r \<Rightarrow> http_outcome \<times> nat" where
  "notFoundFirst n outcome s req = (if s < n then notFoundReply else outcome, Suc s)"

text \<open>A transport whose state counts the calls and which fails on the listed calls.\<close>

definition transportFailingAt :: "nat list \<Rightarrow> nat \<Rightarrow> jsval \<Rightarrow> notification \<Rightarrow> bool \<times> nat" where
  "transportFailingAt failing t chat msg = (t \<notin> set failing, Suc t)"

text \<open>
  A conversion for \<open>ToNumber\<close> that reads no string as a number; the sample runs
  convert numbers only.
\<close>

definition noStrings :: "jsval \<Rightarrow> jsnum" where
  "noStrings v = NaN"

text \<open>The parsed form of \<open>orderBody\<close>.\<close>

definition sampleOrder :: "string \<Rightarrow> OrderResponse" where
  "sampleOrder paymentStatus =
     \<lparr>order =
        \<lparr>orderId = ''ord-1'', phase = ''payment'', order_locale = None, order_lineItems = [],
         order_quote = \<lparr>quote_status = ''valid'', quotedAt = None, expiresAt = None,
                        quote_totalPrice = \<lparr>amount = ''12.50'', currency = ''usdc''\<rparr>\<rparr>,
         order_payment = \<lparr>payment_status = paymentStatus, payment_method = ''base-sepolia'',
                          payment_currency = ''usdc'',
                          preparation = Some \<lparr>prep_chain = None, prep_payerAddress = None,
                                               prep_serializedTransaction = Some ''0xabc''\<rparr>\<rparr>\<rparr>,
      orderClientSecret = None\<rparr>"


text \<open>
  Order-build calls for the sample product with a rejected address: a Canadian one, and a
  US one without a state.
\<close>

definition runCA ::
  "(order_error + WalletOrder) \<times> nat \<times> (CreateOrderRequest \<times> http_outcome) list" where
  "runCA =
     createWalletAmazonOrder (always (okReply (orderBody ''awaiting-payment''))) sampleProduct
       ''a@b.c'' ''0xfeed'' (sampleAddress ''CA'' None) 0"

definition runNoState ::
  "(order_error + WalletOrder) \<times> nat \<times> (CreateOrderRequest \<times> http_outcome) list" where
  "runNoState =
     createWalletAmazonOrder (always (okReply (orderBody ''awaiting-payment''))) sampleProduct
       ''a@b.c'' ''0xfeed'' (sampleAddress ''US'' None) 0"

text \<open>
  An order-build call for the sample product with an accepted address, against a provider
  that answers every request with the given outcome.
\<close>

definition orderRun ::
  "http_outcome \<Rightarrow> (order_error + WalletOrder) \<times> nat \<times> (CreateOrderRequest \<times> http_outcome) list" where
  "orderRun outcome =
     createWalletAmazonOrder (always outcome) sampleProduct ''a@b.c'' ''0xfeed''
       (sampleAddress ''US'' (Some ''CA'')) 0"

text \<open>The request \<open>orderRun\<close> builds, with the given locator.\<close>

definition sampleOrderRequest :: "string \<Rightarrow> CreateOrderRequest" where
  "sampleOrderRequest loc =
     \<lparr>recipient = \<lparr>recipient_email = ''a@b.c'',
                    physicalAddress = Some (sampleAddress ''US'' (Some ''CA''))\<rparr>,
      payment = \<lparr>pay_method = ''base-sepolia'', pay_currency = ''usdc'',
                 payerAddress = ''0xfeed'', receiptEmail = Some ''a@b.c''\<rparr>,
      lineItems = \<lparr>productLocator = loc\<rparr>\<rparr>"


text \<open>
  A wallet-created event and a world in which the user has a memory object; the event
  delivered at time 1000, then again at time 2000 or again at time 1000.
\<close>

definition sampleWalletBody :: jsval where
  "sampleWalletBody =
     JObj [(''userId'', JNum (Fin 42)),
           (''walletAddress'', JStr ''0x1234567890abcdef1234567890abcdef12345678''),
           (''crossmintUserId'', JStr ''cm-user-1''),
           (''email'', JStr ''a@b.c'')]"

definition sampleWorld :: "WalletInfo option \<Rightarrow> (authStore, unit, nat) world" where
  "sampleWorld wi =
     \<lparr>walletService = Map.empty, memory = Inr (Some \<lparr>walletInfo = wi, other = ()\<rparr>),
      transport = 0\<rparr>"

definition deliver ::
  "nat \<Rightarrow> (authStore, unit, nat) world \<Rightarrow> reply \<times> (authStore, unit, nat) world \<times> sent" where
  "deliver now w =
     walletCreatedHandler noStrings (transportFailingAt []) now sampleWalletBody w"

definition firstDelivery :: "reply \<times> (authStore, unit, nat) world \<times> sent" where
  "firstDelivery = deliver 1000 (sampleWorld None)"

definition secondDelivery :: "reply \<times> (authStore, unit, nat) world \<times> sent" where
  "secondDelivery = deliver 2000 (fst (snd firstDelivery))"

definition sameTimeDelivery :: "reply \<times> (authStore, unit, nat) world \<times> sent" where
  "sameTimeDelivery = deliver 1000 (fst (snd firstDelivery))"













text \<open>
  A run of the retry loop over three candidates: the provider answers
  \<open>Product not found\<close> to the first request and HTTP 500 to the second.
\<close>

definition serverError :: http_outcome where
  "serverError =
     Rejected (AxiosError
       (Some \<lparr>resp_status = 500, resp_statusText = ''Internal Server Error'',
              resp_data = JObj [(''message'', JStr ''upstream failure'')]\<rparr>)
       ''Request failed with status code 500'')"

definition failingRun ::
  "(js_error option + OrderResponse) \<times> nat \<times> (CreateOrderRequest \<times> http_outcome) list" where
  "failingRun =
     createOrderWithRetry (notFoundFirst 1 serverError) sampleRequest
       [''amazon:B01DFKC2SO'', ''B01DFKC2SO'', ''https://www.amazon.com/dp/B01DFKC2SO''] 0"





section \<open>Property access: properties\<close>

text \<open>
  A property that can be read is the one \<open>?.\<close> gives; the properties of a truthy value
  can be read; and where one property of a value can be read, all can.
\<close>

lemma getprop_Inr_optprop: "getprop v k = Inr x \<Longrightarrow> optprop v k = x"
  by (simp add: optprop_def)


lemma truthy_optprop: "truthy (optprop body k) \<Longrightarrow> getprop body k = Inr (optprop body k)"
  by (cases body) (auto simp: optprop_def)


text \<open>A template literal can be built exactly when each value it interpolates is printable.\<close>

lemma template_Inr: "template vs = Inr u \<longleftrightarrow> list_all printable vs"
  by (simp add: template_def)

lemma template_printable: "list_all printable vs \<Longrightarrow> template vs = Inr ()"
  by (simp add: template_def)

section \<open>Product Locator Resolver: properties\<close>

text \<open>
  Claim C10. The URL \<open>https://www.amazon.com/dp/B01DFKC2SO\<close> (the domain followed
  at once by \<open>/dp/<ID>\<close>) is accepted by \<open>extractProductLocator\<close>, which returns
  \<open>amazon:B01DFKC2SO\<close>, and rejected by \<open>validateAmazonUrl\<close>: locator extraction
  succeeding does not imply that the URL passes pre-validation.
\<close>

theorem extraction_does_not_imply_validation:
  "extractProductLocator ''https://www.amazon.com/dp/B01DFKC2SO'' = Some ''amazon:B01DFKC2SO''
   \<and> validateAmazonUrl ''https://www.amazon.com/dp/B01DFKC2SO'' = False"
  by code_simp

section \<open>Order Submission Engine: properties\<close>

lemma parse_orderBody: "OrderResponseSchema_parse (orderBody st) = Some (sampleOrder st)"
  by (simp add: OrderResponseSchema_parse_def orderBody_def sampleOrder_def z_object_def own_def
      parseOrder_def z_string_def z_optional_def z_array_def parseOrderQuote_def parseMoney_def
      parseOrderPayment_def parsePreparation_def)

text \<open>
  The requests the loop issues are those of a prefix of the candidates, in order, and a
  successful attempt can only be the last request issued: the loop returns its parsed
  body. The statement is generalised over \<open>lastError\<close> for the induction.
\<close>

lemma loop_trace:
  "createOrderWithRetry_from post req cands le s = (res, s', tr) \<Longrightarrow>
     length tr \<le> length cands \<and>
     map fst tr = map (\<lambda>l. req\<lparr>lineItems := \<lparr>productLocator = l\<rparr>\<rparr>) (take (length tr) cands) \<and>
     (\<forall>i < length tr. successful (snd (tr ! i)) \<longrightarrow>
        Suc i = length tr \<and> (\<exists>parsed. attempt_of (snd (tr ! i)) = Returned parsed \<and> res = Inr parsed))"
proof (induction cands arbitrary: le s res s' tr)
  case Nil
  then show ?case by simp
next
  case (Cons loc rest)
  obtain outcome s1 where p: "post s (req\<lparr>lineItems := \<lparr>productLocator = loc\<rparr>\<rparr>) = (outcome, s1)"
    by (cases "post s (req\<lparr>lineItems := \<lparr>productLocator = loc\<rparr>\<rparr>)") auto
  show ?case
  proof (cases "attempt_of outcome")
    case (Returned parsed)
    with Cons.prems p show ?thesis by (auto simp: successful_def)
  next
    case (Thrown e)
    with Cons.prems p show ?thesis by (auto simp: successful_def)
  next
    case (Continued e)
    obtain res2 s2 tr2
      where r: "createOrderWithRetry_from post req rest (Some e) s1 = (res2, s2, tr2)"
      by (cases "createOrderWithRetry_from post req rest (Some e) s1") auto
    from Cons.prems p Continued r
    have eq: "res = res2" "s' = s2"
      "tr = (req\<lparr>lineItems := \<lparr>productLocator = loc\<rparr>\<rparr>, outcome) # tr2"
      by auto
    from Cons.IH[OF r] have ih: "length tr2 \<le> length rest"
      "map fst tr2 = map (\<lambda>l. req\<lparr>lineItems := \<lparr>productLocator = l\<rparr>\<rparr>) (take (length tr2) rest)"
      "\<forall>i < length tr2. successful (snd (tr2 ! i)) \<longrightarrow>
        Suc i = length tr2 \<and>
        (\<exists>parsed. attempt_of (snd (tr2 ! i)) = Returned parsed \<and> res2 = Inr parsed)"
      by auto
    have ns: "\<not> successful outcome" using Continued by (simp add: successful_def)
    show ?thesis
      unfolding eq using ih ns
      by (auto simp: nth_Cons split: nat.splits)
  qed
qed




section \<open>Order Builder: properties\<close>

text \<open>A match found by \<open>regex_first\<close> is a match at some suffix of the input.\<close>

lemma regex_first_SomeD:
  "regex_first m s = Some a \<Longrightarrow> \<exists>pre t. s = pre @ t \<and> m t = Some a"
proof (induction s)
  case Nil
  then show ?case by simp
next
  case (Cons c cs)
  show ?case
  proof (cases "m (c # cs)")
    case (Some b)
    with Cons.prems have "m (c # cs) = Some a" by simp
    then have "c # cs = [] @ (c # cs) \<and> m (c # cs) = Some a" by simp
    then show ?thesis by blast
  next
    case None
    with Cons.prems have "regex_first m cs = Some a" by simp
    from Cons.IH[OF this] obtain pre t where "cs = pre @ t" "m t = Some a" by blast
    then have "c # cs = (c # pre) @ t" by simp
    with \<open>m t = Some a\<close> show ?thesis by blast
  qed
qed

lemma regex_first_suffix:
  "m t \<noteq> None \<Longrightarrow> regex_first m (pre @ t) \<noteq> None"
proof (induction pre)
  case Nil
  then show ?case by (cases t) auto
next
  case (Cons c pre)
  then show ?case by (auto split: option.splits)
qed

lemma lit_ci_append:
  "lit_ci (p @ q) s = Option.bind (lit_ci p s) (lit_ci q)"
  by (induction p s rule: lit_ci.induct) simp_all

lemma lit_ci_suffix: "lit_ci p s = Some r \<Longrightarrow> \<exists>pre. s = pre @ r"
proof (induction p s rule: lit_ci.induct)
  case (1 s)
  then show ?case by simp
next
  case (2 p ps)
  then show ?case by simp
next
  case (3 p ps c cs)
  then obtain pre where "cs = pre @ r" by (auto split: if_splits)
  then have "c # cs = (c # pre) @ r" by simp
  then show ?case by blast
qed

lemma asin10_len: "asin10 s = Some (a, r) \<Longrightarrow> length a = 10"
  by (auto simp: asin10_def split: if_splits)

lemma asin_pattern_len: "asin_pattern_at s = Some a \<Longrightarrow> length a = 10"
  unfolding asin_pattern_at_def Let_def
  by (auto simp: bind_eq_Some_conv split: option.splits dest: asin10_len)

text \<open>
  Wherever the pattern of method 2 matches, the pattern of method 1 matches ten
  characters further on: method 2 never finds a product that method 1 has missed.
\<close>

lemma url_pattern_implies_asin_pattern:
  assumes "url_pattern_at t = Some a"
  shows "\<exists>pre u. t = pre @ u \<and> asin_pattern_at u \<noteq> None"
proof -
  from assms obtain r where r: "lit_ci ''amazon.com/dp/'' t = Some r" and a: "asin10 r \<noteq> None"
    by (auto simp: url_pattern_at_def split: option.splits)
  have "lit_ci (''amazon.com'' @ ''/dp/'') t = Some r" using r by simp
  then have "Option.bind (lit_ci ''amazon.com'' t) (lit_ci ''/dp/'') = Some r"
    by (simp only: lit_ci_append)
  then obtain u where u: "lit_ci ''amazon.com'' t = Some u" and d: "lit_ci ''/dp/'' u = Some r"
    by (auto simp only: bind_eq_Some_conv)
  from lit_ci_suffix[OF u] obtain pre where pre: "t = pre @ u" by blast
  have "lit_ci (''/'' @ ''dp/'') u = Some r" using d by simp
  then have "Option.bind (lit_ci ''/'' u) (lit_ci ''dp/'') = Some r"
    by (simp only: lit_ci_append)
  then obtain r1 where r1: "lit_ci ''/'' u = Some r1" and d2: "lit_ci ''dp/'' r1 = Some r"
    by (auto simp only: bind_eq_Some_conv)
  have "lit_ci (''dp'' @ ''/'') r1 = Some r" using d2 by simp
  then have "Option.bind (lit_ci ''dp'' r1) (lit_ci ''/'') = Some r"
    by (simp only: lit_ci_append)
  then obtain r2 where r2: "lit_ci ''dp'' r1 = Some r2" and r3: "lit_ci ''/'' r2 = Some r"
    by (auto simp only: bind_eq_Some_conv)
  from a obtain x where x: "asin10 r = Some x" by auto
  have "asin_pattern_at u = Some (fst x)"
    unfolding asin_pattern_at_def Let_def
    by (simp only: r1 r2 r3 x option.case bind.bind_lunit option.map)
  with pre show ?thesis by blast
qed

lemma extract_iff_asin:
  "extractProductLocator url \<noteq> None \<longleftrightarrow> regex_first asin_pattern_at url \<noteq> None"
proof
  assume e: "extractProductLocator url \<noteq> None"
  show "regex_first asin_pattern_at url \<noteq> None"
  proof (rule ccontr)
    assume "\<not> regex_first asin_pattern_at url \<noteq> None"
    then have n: "regex_first asin_pattern_at url = None" by simp
    with e obtain a where "regex_first url_pattern_at url = Some a"
      by (auto simp: extractProductLocator_def split: option.splits)
    from regex_first_SomeD[OF this] obtain pre t
      where t: "url = pre @ t" "url_pattern_at t = Some a"
      by blast
    from url_pattern_implies_asin_pattern[OF t(2)] obtain pre2 u
      where u: "t = pre2 @ u" "asin_pattern_at u \<noteq> None" by blast
    have "url = (pre @ pre2) @ u" using t u by simp
    with regex_first_suffix[of asin_pattern_at u "pre @ pre2"] u(2) n show False by simp
  qed
next
  assume "regex_first asin_pattern_at url \<noteq> None"
  then show "extractProductLocator url \<noteq> None"
    by (auto simp: extractProductLocator_def split: option.splits)
qed

text \<open>
  When the locator can be extracted, both URL checks of \<open>createWalletAmazonOrder\<close>
  pass: the locator and the ASIN are non-empty strings.
\<close>

lemma prechecks_pass:
  assumes "extractProductLocator url \<noteq> None"
  shows "\<not> falsy_str (extractProductLocator url) \<and> \<not> falsy_str (regex_first asin_pattern_at url)"
proof -
  from assms extract_iff_asin obtain a where a: "regex_first asin_pattern_at url = Some a"
    by blast
  from regex_first_SomeD[OF a] asin_pattern_len have "length a = 10" by blast
  then have "a \<noteq> []" by auto
  with a show ?thesis by (simp add: falsy_str_def extractProductLocator_def)
qed

text \<open>
  With a rejected address the \<open>try\<close> block throws at one of its first four checks,
  in the order of the source: locator, ASIN, country, state.
\<close>

lemma try_bad_address:
  assumes "country shippingAddress \<noteq> ''US'' \<or> falsy_str (state shippingAddress)"
  shows "createWalletAmazonOrder_try post product userEmail walletAddress shippingAddress s =
     (Inl (Some (Error
        (if falsy_str (extractProductLocator (amazonUrl product))
         then ''Could not extract product locator from Amazon URL''
         else if falsy_str (regex_first asin_pattern_at (amazonUrl product))
         then ''Could not extract ASIN from Amazon URL''
         else if country shippingAddress \<noteq> ''US''
         then ''Only US shipping addresses are supported at this time''
         else ''State is required for US shipping addresses''))), s, [])"
  using assms unfolding createWalletAmazonOrder_try_def Let_def
  by (cases "falsy_str (extractProductLocator (amazonUrl product))";
      cases "falsy_str (regex_first asin_pattern_at (amazonUrl product))";
      cases "country shippingAddress = ''US''"; simp)

text \<open>
  Claim C8, as amended. For every order-build call whose shipping address has a country
  other than \<open>US\<close>, or no state (a missing or an empty one),
  \<open>createWalletAmazonOrder\<close> fails without issuing a create-order request (the
  provider's state is unchanged). The checks on the product URL come first in the source:
  when a locator can be extracted from the URL, the error is the address rejection (the
  country is checked before the state); when none can be, it is the locator-extraction
  error. The \<open>catch\<close> block wraps either error as an unexpected error.
\<close>

theorem bad_address_rejected_before_network:
  assumes bad: "country shippingAddress \<noteq> ''US'' \<or> falsy_str (state shippingAddress)"
    and run: "createWalletAmazonOrder post product userEmail walletAddress shippingAddress s
                = (res, s', issued)"
  shows "issued = [] \<and> s' = s \<and>
     res = Inl (UnexpectedError (Some (Error
             (if extractProductLocator (amazonUrl product) = None
              then ''Could not extract product locator from Amazon URL''
              else if country shippingAddress \<noteq> ''US''
              then ''Only US shipping addresses are supported at this time''
              else ''State is required for US shipping addresses''))))"
proof -
  let ?m = "if falsy_str (extractProductLocator (amazonUrl product))
         then ''Could not extract product locator from Amazon URL''
         else if falsy_str (regex_first asin_pattern_at (amazonUrl product))
         then ''Could not extract ASIN from Amazon URL''
         else if country shippingAddress \<noteq> ''US''
         then ''Only US shipping addresses are supported at this time''
         else ''State is required for US shipping addresses''"
  have "createWalletAmazonOrder post product userEmail walletAddress shippingAddress s =
      (Inl (UnexpectedError (Some (Error ?m))), s, [])"
    unfolding createWalletAmazonOrder_def try_bad_address[OF bad]
    by (simp add: orderCatch_def)
  with run have r: "res = Inl (UnexpectedError (Some (Error ?m)))" "s' = s" "issued = []"
    by simp_all
  have "?m = (if extractProductLocator (amazonUrl product) = None
              then ''Could not extract product locator from Amazon URL''
              else if country shippingAddress \<noteq> ''US''
              then ''Only US shipping addresses are supported at this time''
              else ''State is required for US shipping addresses'')"
  proof (cases "extractProductLocator (amazonUrl product) = None")
    case True
    then show ?thesis by (simp add: falsy_str_def)
  next
    case False
    with prechecks_pass[of "amazonUrl product"] show ?thesis by simp
  qed
  with r show ?thesis by simp
qed

lemma sample_locator: "extractProductLocator (amazonUrl sampleProduct) = Some ''amazon:B01DFKC2SO''"
  unfolding sampleProduct_def by code_simp

text \<open>
  Witness for C8: the sample product (whose URL carries an ASIN) with a Canadian address,
  and with a US address without a state.
\<close>

theorem bad_address_rejected_before_network_witness:
  "runCA = (Inl (UnexpectedError (Some (Error ''Only US shipping addresses are supported at this time''))), 0, [])
   \<and> runNoState = (Inl (UnexpectedError (Some (Error ''State is required for US shipping addresses''))), 0, [])"
proof -
  have l: "extractProductLocator (amazonUrl sampleProduct) \<noteq> None" by (simp add: sample_locator)
  have b1: "country (sampleAddress ''CA'' None) \<noteq> ''US'' \<or> falsy_str (state (sampleAddress ''CA'' None))"
    by (simp add: sampleAddress_def)
  have b2: "country (sampleAddress ''US'' None) \<noteq> ''US'' \<or> falsy_str (state (sampleAddress ''US'' None))"
    by (simp add: sampleAddress_def falsy_str_def)
  have r1: "createWalletAmazonOrder (always (okReply (orderBody ''awaiting-payment''))) sampleProduct ''a@b.c'' ''0xfeed''
        (sampleAddress ''CA'' None) 0 = (fst runCA, fst (snd runCA), snd (snd runCA))"
    by (simp add: runCA_def)
  have r2: "createWalletAmazonOrder (always (okReply (orderBody ''awaiting-payment''))) sampleProduct ''a@b.c'' ''0xfeed''
        (sampleAddress ''US'' None) 0 = (fst runNoState, fst (snd runNoState), snd (snd runNoState))"
    by (simp add: runNoState_def)
  from bad_address_rejected_before_network[OF b1 r1] l
  have "runCA = (Inl (UnexpectedError (Some (Error ''Only US shipping addresses are supported at this time''))), 0, [])"
    by (simp add: sampleAddress_def prod_eq_iff)
  moreover from bad_address_rejected_before_network[OF b2 r2] l
  have "runNoState = (Inl (UnexpectedError (Some (Error ''State is required for US shipping addresses''))), 0, [])"
    by (simp add: sampleAddress_def prod_eq_iff)
  ultimately show ?thesis by simp
qed

text \<open>
  Counterexample to C8 as stated: a Canadian address with a product URL that carries no
  ASIN. The call fails before any request, but with the locator error, not with an
  address rejection.
\<close>

theorem bad_address_with_bad_url_counterexample:
  "country (sampleAddress ''CA'' None) \<noteq> ''US''
   \<and> createWalletAmazonOrder (always (okReply (orderBody ''awaiting-payment'')))
        (sampleProduct\<lparr>amazonUrl := ''https://example.com/item/42''\<rparr>) ''a@b.c'' ''0xfeed''
        (sampleAddress ''CA'' None) 0
      = (Inl (UnexpectedError (Some (Error ''Could not extract product locator from Amazon URL''))), 0, [])"
  by (simp add: sampleAddress_def sampleProduct_def createWalletAmazonOrder_def
      createWalletAmazonOrder_try_def extractProductLocator_def asin_pattern_at_def url_pattern_at_def
      falsy_str_def orderCatch_def toUpperAscii_def)

section \<open>Outcome classification and the retry policy: properties\<close>

lemma sample_asin: "regex_first asin_pattern_at (amazonUrl sampleProduct) = Some ''B01DFKC2SO''"
  unfolding sampleProduct_def by code_simp

text \<open>
  The sample order-build call against a provider that accepts the first request with the
  body \<open>orderBody st\<close>: one request is issued and its parsed body is classified.
\<close>

lemma orderRun_accepted:
  "orderRun (okReply (orderBody st)) =
     (case classifyOrder (sampleOrder st) of
        Inl e \<Rightarrow> Inl (orderCatch (Some e))
      | Inr result \<Rightarrow> Inr result,
      1, [(sampleOrderRequest ''amazon:B01DFKC2SO'', okReply (orderBody st))])"
  by (simp add: orderRun_def createWalletAmazonOrder_def createWalletAmazonOrder_try_def
      sample_locator sample_asin falsy_str_def sampleAddress_def Let_def createOrderWithRetry_def
      getProductLocatorVariations_def always_def attempt_of_def okReply_def parse_orderBody
      sampleOrderRequest_def getBestBlockchainForWallet_def
      split: sum.splits)

text \<open>
  \<open>createWalletAmazonOrder\<close> either issues no request, or runs the retry loop and
  classifies what the loop returns.
\<close>

lemma createWalletAmazonOrder_cases:
  assumes "createWalletAmazonOrder post product userEmail walletAddress shippingAddress s = (res, s', issued)"
  shows "issued = [] \<or>
     (\<exists>req vars lres. createOrderWithRetry post req vars s = (lres, s', issued) \<and>
        res = (case lres of
                 Inl err \<Rightarrow> Inl (orderCatch err)
               | Inr r \<Rightarrow> (case classifyOrder r of
                              Inl err \<Rightarrow> Inl (orderCatch (Some err))
                            | Inr result \<Rightarrow> Inr result)))"
proof (cases "falsy_str (extractProductLocator (amazonUrl product))
     \<or> falsy_str (regex_first asin_pattern_at (amazonUrl product))
     \<or> country shippingAddress \<noteq> ''US'' \<or> falsy_str (state shippingAddress)")
  case True
  with assms have "issued = []"
    unfolding createWalletAmazonOrder_def createWalletAmazonOrder_try_def Let_def
    by (auto split: if_splits)
  then show ?thesis by simp
next
  case False
  define req where "req =
     \<lparr>recipient = \<lparr>recipient_email = userEmail, physicalAddress = Some shippingAddress\<rparr>,
      payment = \<lparr>pay_method = getBestBlockchainForWallet walletAddress, pay_currency = ''usdc'',
                 payerAddress = walletAddress, receiptEmail = Some userEmail\<rparr>,
      lineItems = \<lparr>productLocator = the (extractProductLocator (amazonUrl product))\<rparr>\<rparr>"
  define vars where "vars = getProductLocatorVariations (the (regex_first asin_pattern_at (amazonUrl product))) (amazonUrl product)"
  obtain lres s1 tr where l: "createOrderWithRetry post req vars s = (lres, s1, tr)"
    by (cases "createOrderWithRetry post req vars s") auto
  from False have t: "createWalletAmazonOrder_try post product userEmail walletAddress shippingAddress s =
      (case createOrderWithRetry post req vars s of
                     (Inl e, s1, issued) \<Rightarrow> (Inl e, s1, issued)
                   | (Inr validatedResponse, s1, issued) \<Rightarrow>
                       (case classifyOrder validatedResponse of
                          Inl e \<Rightarrow> (Inl (Some e), s1, issued)
                        | Inr result \<Rightarrow> (Inr result, s1, issued)))"
    unfolding createWalletAmazonOrder_try_def Let_def req_def vars_def by simp
  from assms have "s' = s1 \<and> issued = tr \<and> res = (case lres of
                 Inl err \<Rightarrow> Inl (orderCatch err)
               | Inr r \<Rightarrow> (case classifyOrder r of
                              Inl err \<Rightarrow> Inl (orderCatch (Some err))
                            | Inr result \<Rightarrow> Inr result))"
    unfolding createWalletAmazonOrder_def t l by (auto split: sum.splits)
  with l show ?thesis by blast
qed

text \<open>
  Claim C1, as amended. For every parsed order response whose \<open>payment.status\<close> equals
  \<open>crypto-payer-insufficient-funds\<close>, outcome classification yields the
  insufficient-funds error (\<open>Insufficient USDC funds in wallet\<close>) and no serialized
  transaction is returned: whenever a request of \<open>createWalletAmazonOrder\<close> is
  answered with such a response, the call fails with that error (wrapped by the
  \<open>catch\<close> block as an unexpected error), whatever the payment preparation holds.
\<close>

theorem insufficient_funds_classified:
  assumes st: "payment_status (order_payment (order r)) = ''crypto-payer-insufficient-funds''"
  shows "classifyOrder r = Inl (Error ''Insufficient USDC funds in wallet'') \<and>
     (createWalletAmazonOrder post product userEmail walletAddress shippingAddress s = (res, s', issued) \<longrightarrow>
      i < length issued \<longrightarrow> attempt_of (snd (issued ! i)) = Returned r \<longrightarrow>
        res = Inl (UnexpectedError (Some (Error ''Insufficient USDC funds in wallet''))))"
proof -
  have c: "classifyOrder r = Inl (Error ''Insufficient USDC funds in wallet'')"
    using st by (simp add: classifyOrder_def)
  have "res = Inl (UnexpectedError (Some (Error ''Insufficient USDC funds in wallet'')))"
    if run: "createWalletAmazonOrder post product userEmail walletAddress shippingAddress s = (res, s', issued)"
      and i: "i < length issued" and a: "attempt_of (snd (issued ! i)) = Returned r"
  proof -
    from i have "issued \<noteq> []" by auto
    with createWalletAmazonOrder_cases[OF run] obtain req vars lres
      where l: "createOrderWithRetry post req vars s = (lres, s', issued)"
        and res: "res = (case lres of
                 Inl err \<Rightarrow> Inl (orderCatch err)
               | Inr r \<Rightarrow> (case classifyOrder r of
                              Inl err \<Rightarrow> Inl (orderCatch (Some err))
                            | Inr result \<Rightarrow> Inr result))"
      by blast
    have "successful (snd (issued ! i))" using a by (simp add: successful_def)
    with loop_trace[OF l[unfolded createOrderWithRetry_def]] i a have "lres = Inr r" by auto
    with res c show ?thesis by (simp add: orderCatch_def)
  qed
  with c show ?thesis by blast
qed

text \<open>
  Witness for C1: the sample order with \<open>payment.status =
  crypto-payer-insufficient-funds\<close> and a serialized transaction present.
\<close>

theorem insufficient_funds_classified_witness:
  "classifyOrder (sampleOrder ''crypto-payer-insufficient-funds'')
     = Inl (Error ''Insufficient USDC funds in wallet'')
   \<and> fst (orderRun (okReply (orderBody ''crypto-payer-insufficient-funds'')))
     = Inl (UnexpectedError (Some (Error ''Insufficient USDC funds in wallet'')))"
proof -
  let ?run = "orderRun (okReply (orderBody ''crypto-payer-insufficient-funds''))"
  have st: "payment_status (order_payment (order (sampleOrder ''crypto-payer-insufficient-funds'')))
      = ''crypto-payer-insufficient-funds''"
    by (simp add: sampleOrder_def)
  have run: "createWalletAmazonOrder (always (okReply (orderBody ''crypto-payer-insufficient-funds'')))
       sampleProduct ''a@b.c'' ''0xfeed'' (sampleAddress ''US'' (Some ''CA'')) 0
     = (fst ?run, fst (snd ?run), snd (snd ?run))"
    by (simp add: orderRun_def)
  have i: "0 < length (snd (snd ?run))" unfolding orderRun_accepted by simp
  have a: "attempt_of (snd (snd (snd ?run) ! 0)) = Returned (sampleOrder ''crypto-payer-insufficient-funds'')"
    unfolding orderRun_accepted by (simp add: attempt_of_def okReply_def parse_orderBody)
  from insufficient_funds_classified[OF st, of "always (okReply (orderBody ''crypto-payer-insufficient-funds''))"
      sampleProduct "''a@b.c''" "''0xfeed''" "sampleAddress ''US'' (Some ''CA'')" 0 "fst ?run" "fst (snd ?run)" "snd (snd ?run)" 0]
    run i a
  show ?thesis by blast
qed

text \<open>
  Counterexample to C1 as stated: a schema-valid reply whose \<open>payment.status\<close> is
  \<open>insufficient-funds\<close>, with a serialized transaction in the payment preparation.
  The call succeeds and returns that transaction.
\<close>

theorem insufficient_funds_status_counterexample:
  "OrderResponseSchema_parse (orderBody ''insufficient-funds'') = Some (sampleOrder ''insufficient-funds'')
   \<and> payment_status (order_payment (order (sampleOrder ''insufficient-funds''))) = ''insufficient-funds''
   \<and> fst (orderRun (okReply (orderBody ''insufficient-funds'')))
      = Inr \<lparr>order = order (sampleOrder ''insufficient-funds''), orderClientSecret = None,
             requiresTransaction = True, serializedTransaction = ''0xabc''\<rparr>"
  unfolding orderRun_accepted by (simp add: parse_orderBody classifyOrder_def sampleOrder_def)

text \<open>
  An attempt at which the \<open>catch\<close> block throws is the last request issued, and the
  loop throws that error.
\<close>

lemma loop_thrown:
  "createOrderWithRetry_from post req cands le s = (res, s', tr) \<Longrightarrow>
     \<forall>i < length tr. \<forall>e. attempt_of (snd (tr ! i)) = Thrown e \<longrightarrow>
        Suc i = length tr \<and> res = Inl (Some e)"
proof (induction cands arbitrary: le s res s' tr)
  case Nil
  then show ?case by simp
next
  case (Cons loc rest)
  obtain outcome s1 where p: "post s (req\<lparr>lineItems := \<lparr>productLocator = loc\<rparr>\<rparr>) = (outcome, s1)"
    by (cases "post s (req\<lparr>lineItems := \<lparr>productLocator = loc\<rparr>\<rparr>)") auto
  show ?case
  proof (cases "attempt_of outcome")
    case (Returned parsed)
    with Cons.prems p show ?thesis by auto
  next
    case (Thrown e)
    with Cons.prems p show ?thesis by auto
  next
    case (Continued e)
    obtain res2 s2 tr2
      where r: "createOrderWithRetry_from post req rest (Some e) s1 = (res2, s2, tr2)"
      by (cases "createOrderWithRetry_from post req rest (Some e) s1") auto
    from Cons.prems p Continued r
    have eq: "res = res2" "tr = (req\<lparr>lineItems := \<lparr>productLocator = loc\<rparr>\<rparr>, outcome) # tr2"
      by auto
    from Cons.IH[OF r]
    have ih: "\<forall>i < length tr2. \<forall>e. attempt_of (snd (tr2 ! i)) = Thrown e \<longrightarrow>
        Suc i = length tr2 \<and> res2 = Inl (Some e)" .
    show ?thesis
      unfolding eq using ih Continued
      by (auto simp: nth_Cons split: nat.splits)
  qed
qed

text \<open>
  The sibling path: on an axios error outside the \<open>Product not found\<close> class whose
  message can be logged, the \<open>catch\<close> block throws that error, so the attempt is
  the last request issued and the loop surfaces the error at once.
\<close>

lemma axios_error_thrown:
  assumes "map_option resp_status response \<noteq> Some 400
         \<or> message_includes (responseMessage response) ''Product not found'' = Inr False"
    and "printable (responseMessage response)"
  shows "attempt_of (Rejected (AxiosError response msg)) = Thrown (AxiosError response msg)"
  using assms by (auto simp: attempt_of_def Let_def template_def split: sum.splits)

lemma axios_error_stops_loop:
  assumes run: "createOrderWithRetry post orderRequest candidates s = (res, s', issued)"
    and i: "i < length issued"
    and failed: "snd (issued ! i) = Rejected (AxiosError response msg)"
    and other: "map_option resp_status response \<noteq> Some 400
         \<or> message_includes (responseMessage response) ''Product not found'' = Inr False"
    and logged: "printable (responseMessage response)"
  shows "Suc i = length issued \<and> res = Inl (Some (AxiosError response msg))"
  using loop_thrown[OF run[unfolded createOrderWithRetry_def]] i failed
    axios_error_thrown[OF other logged]
  by auto

lemma failingRun_eval:
  "failingRun = (Inl (Some (AxiosError
       (Some \<lparr>resp_status = 500, resp_statusText = ''Internal Server Error'',
              resp_data = JObj [(''message'', JStr ''upstream failure'')]\<rparr>)
       ''Request failed with status code 500'')), 2,
     [(sampleRequest\<lparr>lineItems := \<lparr>productLocator = ''amazon:B01DFKC2SO''\<rparr>\<rparr>, notFoundReply),
      (sampleRequest\<lparr>lineItems := \<lparr>productLocator = ''B01DFKC2SO''\<rparr>\<rparr>, serverError)])"
  by (simp add: failingRun_def createOrderWithRetry_def notFoundFirst_def attempt_of_def
      serverError_def notFoundReply_def responseMessage_def optprop_def own_def
      message_includes_def template_def)

lemma parse_empty: "OrderResponseSchema_parse (JObj []) = None"
  by (simp add: OrderResponseSchema_parse_def z_object_def own_def parseOrder_def)

text \<open>
  Claim C2, at an input where the code departs from it. The provider answers every
  create-order request with HTTP 200 and the body \<open>{}\<close>, which violates the
  schema. The \<open>ZodError\<close> that \<open>OrderResponseSchema.parse\<close> throws is not an
  axios error, so the \<open>catch\<close> block records it and the loop goes on: a request is
  issued for each of the five locator variations (the provider has counted five), and only
  then is the schema violation surfaced.
\<close>

theorem schema_violation_does_not_stop_retry:
  "fst (orderRun (okReply (JObj []))) = Inl InvalidResponseFormat
   \<and> fst (snd (orderRun (okReply (JObj [])))) = 5
   \<and> locatorsOf (snd (snd (orderRun (okReply (JObj [])))))
      = [''amazon:B01DFKC2SO'',
         ''amazon:https://www.amazon.com/dp/B01DFKC2SO'',
         ''amazon:https://www.amazon.com/dp/B01DFKC2SO'',
         ''B01DFKC2SO'',
         ''https://www.amazon.com/dp/B01DFKC2SO'']"
  apply (simp add: orderRun_def createWalletAmazonOrder_def createWalletAmazonOrder_try_def
      sample_locator sample_asin falsy_str_def sampleAddress_def Let_def createOrderWithRetry_def
      getProductLocatorVariations_def always_def attempt_of_def okReply_def parse_empty
      getBestBlockchainForWallet_def orderCatch_def locatorsOf_def)
  apply (simp add: sampleProduct_def)
  done

section \<open>Transaction Signing Coordinator and Approval Relay: properties\<close>








text \<open>
  When the \<open>catch\<close> block of \<open>getTransactionDetails\<close> returns, it returns a
  failure value: no transaction, no pending approval, an error message.
\<close>

lemma details_catch_no_approval:
  assumes "getTransactionDetails_catch err = Inr result"
  shows "pendingMessage result = None \<and> signerLocator result = None
      \<and> details_error result \<noteq> None \<and> transaction result = JNull"
  using assms
  by (auto simp: getTransactionDetails_catch_def Let_def thenE_def
      split: js_error.splits option.splits sum.splits)

text \<open>
  Whatever the request does, a result that holds a pending approval (a message or a
  signer, or no error) comes only from a transaction whose status is exactly
  \<open>awaiting-approval\<close>.
\<close>

lemma pending_approval_only_when_awaiting:
  assumes p: "get s (walletAddress, txId) = (outcome, s1)"
    and r: "fst (getTransactionDetails conv get walletAddress txId s) = Inr result"
    and pm: "pendingMessage result \<noteq> None \<or> signerLocator result \<noteq> None \<or> details_error result = None"
  shows "\<exists>response. outcome = Resolved response \<and>
     getprop (resp_data response) ''status'' = Inr (JStr ''awaiting-approval'')"
proof (cases "getTransactionDetails_try conv outcome")
  case (Inl err)
  with p r have "getTransactionDetails_catch err = Inr result"
    by (simp add: getTransactionDetails_def)
  from details_catch_no_approval[OF this] pm show ?thesis by simp
next
  case (Inr res)
  with p r have e: "res = result" by (simp add: getTransactionDetails_def)
  from Inr pm show ?thesis unfolding e
    by (cases outcome)
       (auto simp: getTransactionDetails_try_def thenE_def Let_def pendingApprovals_def
          split: if_splits sum.splits option.splits)
qed







section \<open>Settlement Notifier: properties\<close>

text \<open>
  \<open>substring(-6)\<close> is the whole string: a negative start counts as 0. So the value
  the handler calls masked is the first eight characters, three dots and the full address.
\<close>

lemma substring_from_negative: "substring a (- 6) None = a"
  by (simp add: substring_def clampIndex_def Let_def)

lemma substring_prefix: "substring a 0 (Some 8) = take 8 a"
  by (auto simp: substring_def clampIndex_def Let_def min_def max_def)

lemma maskedAddress_str: "maskedAddress (JStr a) = Inr (take 8 a @ ''...'' @ a)"
  by (simp add: maskedAddress_def substring_from_negative substring_prefix)

text \<open>
  The sample event delivered once, and delivered again an instant later.
\<close>

lemma firstDelivery_eval:
  "firstDelivery =
     (WalletCreated (Fin 42) ''0x123456...0x1234567890abcdef1234567890abcdef12345678'',
      \<lparr>walletService = [Fin 42 \<mapsto> \<lparr>wd_crossmintUserId = JStr ''cm-user-1'',
             wd_walletAddress = JStr ''0x1234567890abcdef1234567890abcdef12345678'',
             wd_authToken = JUndefined, wd_email = JStr ''a@b.c''\<rparr>],
       memory = Inr (Some \<lparr>walletInfo = Some
           \<lparr>address = JStr ''0x1234567890abcdef1234567890abcdef12345678'',
            crossmintUserId = JStr ''cm-user-1'', email = JStr ''a@b.c'', authToken = JUndefined,
            createdAt = 1000, isVerified = True, lastTopUpAmount = None, lastTopUpAt = None,
            lastVerifiedBalance = None, lastBalanceCheck = None\<rparr>, other = ()\<rparr>),
       transport = 1\<rparr>,
      [(JNum (Fin 42), WalletCreatedNotice ''0x123456...0x1234567890abcdef1234567890abcdef12345678'', True)])"
  by (simp add: firstDelivery_def deliver_def walletCreatedHandler_def sampleWalletBody_def
      sampleWorld_def own_def optprop_def maskedAddress_str transportFailingAt_def
      updateUserAuth_def template_def Let_def)

lemma secondDelivery_eval:
  "secondDelivery =
     (WalletCreated (Fin 42) ''0x123456...0x1234567890abcdef1234567890abcdef12345678'',
      \<lparr>walletService = [Fin 42 \<mapsto> \<lparr>wd_crossmintUserId = JStr ''cm-user-1'',
             wd_walletAddress = JStr ''0x1234567890abcdef1234567890abcdef12345678'',
             wd_authToken = JUndefined, wd_email = JStr ''a@b.c''\<rparr>],
       memory = Inr (Some \<lparr>walletInfo = Some
           \<lparr>address = JStr ''0x1234567890abcdef1234567890abcdef12345678'',
            crossmintUserId = JStr ''cm-user-1'', email = JStr ''a@b.c'', authToken = JUndefined,
            createdAt = 2000, isVerified = True, lastTopUpAmount = None, lastTopUpAt = None,
            lastVerifiedBalance = None, lastBalanceCheck = None\<rparr>, other = ()\<rparr>),
       transport = 2\<rparr>,
      [(JNum (Fin 42), WalletCreatedNotice ''0x123456...0x1234567890abcdef1234567890abcdef12345678'', True)])"
  by (simp add: secondDelivery_def firstDelivery_eval deliver_def walletCreatedHandler_def
      sampleWalletBody_def own_def optprop_def maskedAddress_str transportFailingAt_def
      updateUserAuth_def template_def Let_def)

text \<open>
  Claim C4, at an input where the code departs from it. A wallet-created request for user
  42 with the wallet address \<open>0x1234567890abcdef1234567890abcdef12345678\<close> is
  accepted; the \<open>walletAddress\<close> of the 200 response, and the address in the message
  sent to the user, is \<open>0x123456...\<close> followed by the full wallet address.
\<close>

theorem wallet_address_not_masked:
  "fst firstDelivery =
     WalletCreated (Fin 42) (''0x123456'' @ ''...'' @ ''0x1234567890abcdef1234567890abcdef12345678'')
   \<and> snd (snd firstDelivery) =
     [(JNum (Fin 42),
       WalletCreatedNotice (''0x123456'' @ ''...'' @ ''0x1234567890abcdef1234567890abcdef12345678''),
       True)]"
  by (simp add: firstDelivery_eval)

text \<open>
  Counterexample to C7 as stated: the sample event delivered at time 1000 and again at
  time 2000. The user's memory after the second delivery differs from the memory after
  the first: \<open>walletInfo.createdAt\<close> is 2000, not 1000.
\<close>

theorem duplicate_delivery_changes_createdAt_counterexample:
  "memory (fst (snd secondDelivery)) \<noteq> memory (fst (snd firstDelivery))
   \<and> map_sum id (\<lambda>found. map_option createdAt (Option.bind found walletInfo))
        (memory (fst (snd firstDelivery))) = Inr (Some 1000)
   \<and> map_sum id (\<lambda>found. map_option createdAt (Option.bind found walletInfo))
        (memory (fst (snd secondDelivery))) = Inr (Some 2000)"
  by (simp add: firstDelivery_eval secondDelivery_eval)

text \<open>
  The state the wallet-created handler leaves. When the handler does not reach its state
  updates, the state is unchanged. When it does, the wallet service holds the record of
  the event for the user and the memory object, when there is one, has a fresh
  \<open>walletInfo\<close> stamped with the time of the call, whether or not the message to
  the user could then be built and sent.
\<close>

lemma not_accepted_state:
  "\<not> accepted conv body \<Longrightarrow> fst (snd (walletCreatedHandler conv send now body w)) = w"
  unfolding accepted_def walletCreatedHandler_def Let_def
  by (cases "getprop body ''userId''")
     (auto simp: getprop_Inr_optprop template_def split: sum.splits)

lemma accepted_state:
  assumes "accepted conv body"
  shows "walletService (fst (snd (walletCreatedHandler conv send now body w)))
       = updateUserAuth (walletService w)
           (case ToNumber conv (optprop body ''userId'') of Inr numericUserId \<Rightarrow> numericUserId)
           \<lparr>wd_crossmintUserId = optprop body ''crossmintUserId'',
            wd_walletAddress = optprop body ''walletAddress'',
            wd_authToken = optprop body ''authToken'',
            wd_email = optprop body ''email''\<rparr>"
    and "memory (fst (snd (walletCreatedHandler conv send now body w)))
       = map_sum id (map_option (\<lambda>m. m\<lparr>walletInfo := Some
                                     \<lparr>address = optprop body ''walletAddress'',
                                      crossmintUserId = optprop body ''crossmintUserId'',
                                      email = optprop body ''email'',
                                      authToken = optprop body ''authToken'',
                                      createdAt = now,
                                      isVerified = True,
                                      lastTopUpAmount = None,
                                      lastTopUpAt = None,
                                      lastVerifiedBalance = None,
                                      lastBalanceCheck = None\<rparr>\<rparr>)) (memory w)"
proof -
  from assms obtain n where g: "getprop body ''userId'' = Inr (optprop body ''userId'')"
    and t: "truthy (optprop body ''userId'')" "truthy (optprop body ''walletAddress'')"
       "truthy (optprop body ''crossmintUserId'')"
    and n: "ToNumber conv (optprop body ''userId'') = Inr n" "n \<noteq> NaN"
    and p: "template [optprop body ''userId'', optprop body ''walletAddress''] = Inr ()"
    by (auto simp: accepted_def truthy_optprop template_def split: sum.splits)
  show "walletService (fst (snd (walletCreatedHandler conv send now body w)))
       = updateUserAuth (walletService w)
           (case ToNumber conv (optprop body ''userId'') of Inr numericUserId \<Rightarrow> numericUserId)
           \<lparr>wd_crossmintUserId = optprop body ''crossmintUserId'',
            wd_walletAddress = optprop body ''walletAddress'',
            wd_authToken = optprop body ''authToken'',
            wd_email = optprop body ''email''\<rparr>"
    unfolding walletCreatedHandler_def Let_def g using t n p
    by (auto split: sum.splits prod.splits)
  show "memory (fst (snd (walletCreatedHandler conv send now body w)))
       = map_sum id (map_option (\<lambda>m. m\<lparr>walletInfo := Some
                                     \<lparr>address = optprop body ''walletAddress'',
                                      crossmintUserId = optprop body ''crossmintUserId'',
                                      email = optprop body ''email'',
                                      authToken = optprop body ''authToken'',
                                      createdAt = now,
                                      isVerified = True,
                                      lastTopUpAmount = None,
                                      lastTopUpAt = None,
                                      lastVerifiedBalance = None,
                                      lastBalanceCheck = None\<rparr>\<rparr>)) (memory w)"
    unfolding walletCreatedHandler_def Let_def g using t n p
    by (auto split: sum.splits prod.splits)
qed

text \<open>
  Claim C7, as amended. The same wallet-created event is delivered at time \<open>t1\<close> and
  again at time \<open>t2\<close>; the second delivery finds the wallet service and the memory
  object as the first one left them. The wallet-service auth record is the same after the
  second delivery as after the first. The session-memory wallet info after the second
  delivery has every field equal to the one after the first delivery except
  \<open>createdAt\<close>, which the second delivery stamps with its own time \<open>t2\<close>; so the
  memory is identical when both deliveries read the same time. (An event the handler
  rejects changes nothing on either delivery.)
\<close>

theorem duplicate_wallet_created_delivery:
  "let once = fst (snd (walletCreatedHandler conv sendMessage t1 body w));
       twice = fst (snd (walletCreatedHandler conv sendMessage t2 body once))
   in walletService twice = walletService once
      \<and> memory twice = (if accepted conv body then restamped t2 (memory once) else memory once)
      \<and> (t1 = t2 \<longrightarrow> memory twice = memory once)"
proof (cases "accepted conv body")
  case False
  then show ?thesis by (simp add: not_accepted_state Let_def)
next
  case True
  show ?thesis
    unfolding Let_def accepted_state[OF True] using True
    by (cases "memory w"; cases "projr (memory w)")
       (auto simp: updateUserAuth_def restamped_def)
qed

lemma sample_accepted: "accepted noStrings sampleWalletBody"
  by (simp add: accepted_def sampleWalletBody_def optprop_def own_def)

text \<open>
  Witness for C7: the sample event delivered at times 1000 and 2000, and at time 1000
  twice.
\<close>

theorem duplicate_wallet_created_delivery_witness:
  "walletService (fst (snd secondDelivery)) = walletService (fst (snd firstDelivery))
   \<and> memory (fst (snd secondDelivery)) = restamped 2000 (memory (fst (snd firstDelivery)))
   \<and> memory (fst (snd sameTimeDelivery)) = memory (fst (snd firstDelivery))"
proof -
  from duplicate_wallet_created_delivery[of noStrings "transportFailingAt []" 1000
      sampleWalletBody "sampleWorld None" 2000] sample_accepted
  have a: "walletService (fst (snd secondDelivery)) = walletService (fst (snd firstDelivery))
     \<and> memory (fst (snd secondDelivery)) = restamped 2000 (memory (fst (snd firstDelivery)))"
    by (simp add: Let_def secondDelivery_def firstDelivery_def deliver_def)
  have b: "memory (fst (snd sameTimeDelivery)) = memory (fst (snd firstDelivery))"
    using duplicate_wallet_created_delivery[of noStrings "transportFailingAt []" 1000
      sampleWalletBody "sampleWorld None" 1000]
    unfolding Let_def sameTimeDelivery_def firstDelivery_def deliver_def by blast
  from a b show ?thesis by simp
qed









end
